theory Spec2Isabelle
  imports Complex_Main "HOL-Library.AList" "HOL-Library.Multiset" "HOL-Library.Product_Lexorder"
begin

section \<open>JavaScript strings\<close>

text \<open>
  A JavaScript string is modelled as a \<^typ>\<open>string\<close>. Text outside ASCII is held in
  UTF-8, so the Chinese aliases of the source are byte sequences, and \<open>trim\<close> strips
  the white space and line terminators of JavaScript in their UTF-8 form. Two helpers
  stay on ASCII: \<open>toLowerCase\<close> folds \<open>A\<close> to \<open>Z\<close> only, and a decimal numeral converts
  to a natural number (exact where JavaScript's \<open>Number\<close> is, below \<open>2^53\<close>).
\<close>

fun startsWith :: "string \<Rightarrow> string \<Rightarrow> bool" where
  "startsWith s [] = True"
| "startsWith [] (p # ps) = False"
| "startsWith (c # cs) (p # ps) = (c = p \<and> startsWith cs ps)"

definition white_space :: "string list" where
  \<comment> \<open>what \<open>trim\<close> strips: U+0009 to U+000D, U+0020, U+00A0, U+1680, U+2000 to U+200A,
     U+2028, U+2029, U+202F, U+205F, U+3000 and U+FEFF\<close>
  "white_space =
     [[CHR 0x09], [CHR 0x0A], [CHR 0x0B], [CHR 0x0C], [CHR 0x0D], [CHR 0x20],
      [CHR 0xC2, CHR 0xA0], [CHR 0xE1, CHR 0x9A, CHR 0x80],
      [CHR 0xE2, CHR 0x80, CHR 0x80], [CHR 0xE2, CHR 0x80, CHR 0x81], [CHR 0xE2, CHR 0x80, CHR 0x82],
      [CHR 0xE2, CHR 0x80, CHR 0x83], [CHR 0xE2, CHR 0x80, CHR 0x84], [CHR 0xE2, CHR 0x80, CHR 0x85],
      [CHR 0xE2, CHR 0x80, CHR 0x86], [CHR 0xE2, CHR 0x80, CHR 0x87], [CHR 0xE2, CHR 0x80, CHR 0x88],
      [CHR 0xE2, CHR 0x80, CHR 0x89], [CHR 0xE2, CHR 0x80, CHR 0x8A],
      [CHR 0xE2, CHR 0x80, CHR 0xA8], [CHR 0xE2, CHR 0x80, CHR 0xA9],
      [CHR 0xE2, CHR 0x80, CHR 0xAF], [CHR 0xE2, CHR 0x81, CHR 0x9F],
      [CHR 0xE3, CHR 0x80, CHR 0x80], [CHR 0xEF, CHR 0xBB, CHR 0xBF]]"

function strip_start :: "string list \<Rightarrow> string \<Rightarrow> string" where
  \<comment> \<open>drops from the start of \<open>s\<close> every leading occurrence of one of the sequences\<close>
  "strip_start seqs s =
     (case find (\<lambda>p. p \<noteq> [] \<and> startsWith s p) seqs of
        None \<Rightarrow> s
      | Some p \<Rightarrow> strip_start seqs (drop (length p) s))"
  by pat_completeness auto
termination
proof (relation "measure (\<lambda>(seqs, s). length s)")
  show "wf (measure (\<lambda>(seqs, s). length s))" by simp
next
  fix seqs :: "string list" and s p :: string
  assume "find (\<lambda>p. p \<noteq> [] \<and> startsWith s p) seqs = Some p"
  then have "p \<noteq> []" and "startsWith s p"
    by (auto simp: find_Some_iff)
  then have "length (drop (length p) s) < length s"
    by (cases s; cases p) auto
  then show "((seqs, drop (length p) s), (seqs, s)) \<in> measure (\<lambda>(seqs, s). length s)"
    by simp
qed

declare strip_start.simps [simp del]

definition trim :: "string \<Rightarrow> string" where
  "trim s = rev (strip_start (map rev white_space) (rev (strip_start white_space s)))"

fun split_on :: "char \<Rightarrow> string \<Rightarrow> string list" where
  "split_on sep [] = [[]]"
| "split_on sep (c # cs) =
     (if c = sep then [] # split_on sep cs
      else (case split_on sep cs of
              [] \<Rightarrow> [[c]]
            | p # ps \<Rightarrow> (c # p) # ps))"

definition is_digit :: "char \<Rightarrow> bool" where
  "is_digit c = (c \<in> set ''0123456789'')"

definition all_digits :: "string \<Rightarrow> bool" where
  \<comment> \<open>\<open>/^\d+$/.test(part)\<close>\<close>
  "all_digits s = (s \<noteq> [] \<and> list_all is_digit s)"

definition digit_val :: "char \<Rightarrow> nat" where
  "digit_val c = of_char c - 48"

definition Number_of :: "string \<Rightarrow> nat" where
  \<comment> \<open>\<open>Number(part)\<close> on a string of decimal digits\<close>
  "Number_of s = foldl (\<lambda>acc c. 10 * acc + digit_val c) 0 s"

section \<open>Manual time input (popup.js, \<open>parseTimeToMs\<close>)\<close>

definition parseTimeToMs :: "string \<Rightarrow> nat option" where
  "parseTimeToMs v =
     (let raw = trim v in
      if raw = [] then None
      else
        let parts = map trim (split_on CHR '':'' raw) in
        if length parts < 1 \<or> length parts > 3 then None
        else if list_ex (\<lambda>part. \<not> all_digits part) parts then None
        else
          let (hours, minutes, seconds) =
                (if length parts = 3 then
                   (Number_of (parts ! 0), Number_of (parts ! 1), Number_of (parts ! 2))
                 else if length parts = 2 then
                   (0, Number_of (parts ! 0), Number_of (parts ! 1))
                 else (0, 0, Number_of (parts ! 0)))
          in
          if length parts = 3 \<and> minutes > 59 then None
          else if seconds > 59 \<and> length parts > 1 then None
          else Some ((hours * 3600 + minutes * 60 + seconds) * 1000))"

definition lower_char :: "char \<Rightarrow> char" where
  "lower_char c =
     (case map_of (zip ''ABCDEFGHIJKLMNOPQRSTUVWXYZ'' ''abcdefghijklmnopqrstuvwxyz'') c of
        Some l \<Rightarrow> l
      | None \<Rightarrow> c)"

definition toLowerCase :: "string \<Rightarrow> string" where
  "toLowerCase s = map lower_char s"

fun includes_str :: "string \<Rightarrow> string \<Rightarrow> bool" where
  "includes_str [] sub = (sub = [])"
| "includes_str (c # cs) sub = (startsWith (c # cs) sub \<or> includes_str cs sub)"

fun digit_char :: "nat \<Rightarrow> char" where
  "digit_char n = ''0123456789'' ! (n mod 10)"

fun string_of_nat :: "nat \<Rightarrow> string" where
  "string_of_nat n =
     (if n < 10 then [digit_char n] else string_of_nat (n div 10) @ [digit_char n])"

declare string_of_nat.simps [simp del]

section \<open>Schema property resolution (popup.js, \<open>findProperty\<close>)\<close>

text \<open>
  The schema is the \<open>properties\<close> object of the database: property name to
  \<open>config.type\<close>. It is held as the association list \<open>Object.entries\<close> yields: the
  properties in the order the response declares them (a name that is an array index,
  such as \<open>7\<close>, is moved before the others by JavaScript; the list is taken after
  that).
\<close>

type_synonym schema = "(string \<times> string) list"

definition isMatch :: "string \<Rightarrow> string list \<Rightarrow> bool" where
  "isMatch name aliases =
     list_ex (\<lambda>alias. toLowerCase name = toLowerCase alias
                      \<or> includes_str (toLowerCase name) (toLowerCase alias)) aliases"

fun findProperty :: "schema \<Rightarrow> string list \<Rightarrow> string list \<Rightarrow> (string \<times> string) option" where
  "findProperty [] aliases allowedTypes = None"
| "findProperty ((name, ty) # rest) aliases allowedTypes =
     (if isMatch name aliases \<and> (length allowedTypes = 0 \<or> ty \<in> set allowedTypes)
      then Some (name, ty)
      else findProperty rest aliases allowedTypes)"

section \<open>The browser and the remote API as an explicit world\<close>

datatype error =
    StorageError          \<comment> \<open>a \<open>chrome.storage.local\<close> call rejects\<close>
  | NetworkError          \<comment> \<open>\<open>fetch\<close> rejects\<close>
  | SyntaxError           \<comment> \<open>\<open>response.json()\<close> rejects\<close>
  | Error string          \<comment> \<open>\<open>throw new Error(message)\<close>\<close>

record cache_entry =
  pageId :: string
  url :: string
  timestamp :: int

record settings =
  notionToken :: string   \<comment> \<open>empty when the key is not stored\<close>
  databaseId :: string

record page =
  page_id :: string
  page_url :: string
  archived :: bool
  in_trash :: bool

text \<open>The fields of a response body that the code reads; a field that is missing is
  \<open>None\<close>, the empty string or \<open>False\<close>, each falsy as \<open>undefined\<close> is.\<close>

record body =
  properties :: "schema option"      \<comment> \<open>\<open>db.properties\<close>\<close>
  results :: "page list option"      \<comment> \<open>\<open>data.results\<close>\<close>
  as_page :: page                    \<comment> \<open>\<open>id\<close>, \<open>url\<close>, \<open>archived\<close>, \<open>in_trash\<close> of the body\<close>
  message :: string                  \<comment> \<open>\<open>error.message\<close>\<close>

datatype response =
    Rejected                         \<comment> \<open>the promise of \<open>fetch\<close> rejects\<close>
  | Response nat "body option"       \<comment> \<open>HTTP status; the body, \<open>None\<close> when it is not JSON\<close>

definition ok :: "nat \<Rightarrow> bool" where
  \<comment> \<open>\<open>response.ok\<close>: the status is in the range 200 to 299\<close>
  "ok status = (200 \<le> status \<and> status \<le> 299)"

datatype jsvalue = JStr string | JBool bool

datatype property_value =
    PTitle string string             \<comment> \<open>\<open>title: [{text: {content, link: {url}}}]\<close>\<close>
  | PNumber nat
  | PNumberOf jsvalue                \<comment> \<open>\<open>number: Number(value)\<close>, the value not yet converted\<close>
  | PRichText string
  | PUrl string
  | PSelect string
  | PDate string
  | PCheckbox bool
  | PMultiSelect "string list"
  | PNull

type_synonym notion_properties = "(string \<times> property_value) list"

record code_block =
  rich_text :: "string list"         \<comment> \<open>the chunks, each a text run\<close>
  block_language :: string

datatype request =
    GetDatabase string string                            \<comment> \<open>database id, token\<close>
  | QueryDatabase string string string nat               \<comment> \<open>database id, token, property, number\<close>
  | GetPage string string                                \<comment> \<open>page id, token\<close>
  | CreatePage string string notion_properties "code_block list"
                                                         \<comment> \<open>database id, token, properties, children\<close>

datatype storage_op =
    StorageGet "string list"
  | StorageSet "string list"
  | StorageRemove string

record world =
  clock :: int                                  \<comment> \<open>\<open>Date.now()\<close>\<close>
  local_cache :: "string \<rightharpoonup> cache_entry"          \<comment> \<open>the \<open>problem_\<close> keys of \<open>chrome.storage.local\<close>\<close>
  local_settings :: settings                    \<comment> \<open>the credential keys of \<open>chrome.storage.local\<close>\<close>
  storage_fails :: "storage_op \<Rightarrow> bool"          \<comment> \<open>the storage calls that reject\<close>
  remote :: "request \<Rightarrow> response"                \<comment> \<open>what the remote API answers\<close>
  sent :: "request list"                        \<comment> \<open>the requests issued so far, oldest first\<close>

definition fetch :: "world \<Rightarrow> request \<Rightarrow> response \<times> world" where
  "fetch w req = (remote w req, w\<lparr>sent := sent w @ [req]\<rparr>)"

section \<open>The local cache (popup.js, \<open>getCachedPage\<close>, \<open>cachePage\<close>)\<close>

definition CACHE_TTL :: int where
  "CACHE_TTL = 60 * 60 * 1000"

definition problem_key :: "nat \<Rightarrow> string" where
  \<comment> \<open>the template \<open>problem_${problemNumber}\<close>\<close>
  "problem_key problemNumber = ''problem_'' @ string_of_nat problemNumber"

definition getCachedPage :: "world \<Rightarrow> nat \<Rightarrow> error + (cache_entry option \<times> world)" where
  "getCachedPage w problemNumber =
     (let key = problem_key problemNumber in
      if storage_fails w (StorageGet [key]) then Inl StorageError
      else
        case local_cache w key of
          None \<Rightarrow> Inr (None, w)
        | Some cached \<Rightarrow>
            let age = clock w - (if timestamp cached \<noteq> 0 then timestamp cached else 0) in
            if age > CACHE_TTL then
              (if storage_fails w (StorageRemove key) then Inl StorageError
               else Inr (None, w\<lparr>local_cache := (local_cache w)(key := None)\<rparr>))
            else Inr (Some cached, w))"

definition cachePage :: "world \<Rightarrow> nat \<Rightarrow> string \<Rightarrow> string \<Rightarrow> error + world" where
  "cachePage w problemNumber pid purl =
     (let key = problem_key problemNumber in
      if storage_fails w (StorageSet [key]) then Inl StorageError
      else Inr (w\<lparr>local_cache := (local_cache w)
                    (key \<mapsto> \<lparr>pageId = pid, url = purl, timestamp = clock w\<rparr>)\<rparr>))"

section \<open>Duplicate detection (popup.js)\<close>

record app =
  problemData_number :: "nat option"   \<comment> \<open>\<open>this.problemData.number\<close>, \<open>None\<close> for \<open>null\<close>\<close>
  notionPageId :: "string option"
  notionPageUrl :: "string option"
  alreadySavedBadge :: bool            \<comment> \<open>the badge is visible\<close>
  notionLinks :: bool                  \<comment> \<open>the links are visible\<close>

definition truthy_str :: "string option \<Rightarrow> bool" where
  "truthy_str v = (case v of None \<Rightarrow> False | Some s \<Rightarrow> s \<noteq> [])"

definition showAlreadySavedBadge :: "bool \<Rightarrow> app \<Rightarrow> app" where
  "showAlreadySavedBadge show a = a\<lparr>alreadySavedBadge := show\<rparr>"

definition showNotionLinks :: "app \<Rightarrow> app" where
  "showNotionLinks a =
     (if truthy_str (notionPageId a) \<or> truthy_str (notionPageUrl a)
      then a\<lparr>notionLinks := True\<rparr> else a)"

definition loadSettings :: "world \<Rightarrow> error + settings" where
  "loadSettings w =
     (if storage_fails w (StorageGet [''notionToken'', ''databaseId'']) then Inl StorageError
      else Inr (local_settings w))"

definition checkPageExists :: "world \<Rightarrow> string \<Rightarrow> settings \<Rightarrow> bool \<times> world" where
  "checkPageExists w pid st =
     (let (response, w1) = fetch w (GetPage pid (notionToken st)) in
      case response of
        Rejected \<Rightarrow> (False, w1)
      | Response code b \<Rightarrow>
          if code = 404 then (False, w1)
          else if \<not> ok code then (False, w1)
          else (case b of
                  None \<Rightarrow> (False, w1)
                | Some pg \<Rightarrow> (\<not> archived (as_page pg) \<and> \<not> in_trash (as_page pg), w1)))"

definition validateCacheInBackground ::
  "world \<Rightarrow> app \<Rightarrow> nat \<Rightarrow> string \<Rightarrow> settings \<Rightarrow> app \<times> world" where
  "validateCacheInBackground w a problemNumber pid st =
     (let (exists, w1) = checkPageExists w pid st in
      if \<not> exists then
        (if storage_fails w1 (StorageRemove (problem_key problemNumber)) then (a, w1)
         else
           (showAlreadySavedBadge False (a\<lparr>notionPageId := None, notionPageUrl := None\<rparr>)
              \<lparr>notionLinks := False\<rparr>,
            w1\<lparr>local_cache := (local_cache w1)(problem_key problemNumber := None)\<rparr>))
      else (a, w1))"

definition number_aliases :: "string list" where
  \<comment> \<open>the last alias is U+7F16 U+53F7\<close>
  "number_aliases =
     [''Number'', ''Problem Number'', ''ID'', ''#'',
      [CHR 0xE7, CHR 0xBC, CHR 0x96, CHR 0xE5, CHR 0x8F, CHR 0xB7]]"

definition findPageInNotion :: "world \<Rightarrow> nat \<Rightarrow> settings \<Rightarrow> page option \<times> world" where
  "findPageInNotion w problemNumber st =
     (let (dbResponse, w1) = fetch w (GetDatabase (databaseId st) (notionToken st)) in
      case dbResponse of
        Rejected \<Rightarrow> (None, w1)
      | Response code b \<Rightarrow>
          if \<not> ok code then (None, w1)
          else (case b of
             None \<Rightarrow> (None, w1)
           | Some db \<Rightarrow>
               let dbProperties = (case properties db of None \<Rightarrow> [] | Some ps \<Rightarrow> ps) in
               (case findProperty dbProperties number_aliases [''number''] of
                  None \<Rightarrow> (None, w1)
                | Some (name, ty) \<Rightarrow>
                    let (queryResponse, w2) =
                          fetch w1 (QueryDatabase (databaseId st) (notionToken st) name problemNumber) in
                    (case queryResponse of
                       Rejected \<Rightarrow> (None, w2)
                     | Response qcode qb \<Rightarrow>
                         if \<not> ok qcode then (None, w2)
                         else (case qb of
                            None \<Rightarrow> (None, w2)
                          | Some data \<Rightarrow>
                              (case results data of
                                 None \<Rightarrow> (None, w2)
                               | Some [] \<Rightarrow> (None, w2)
                               | Some (pg # _) \<Rightarrow>
                                   if \<not> archived pg \<and> \<not> in_trash pg then (Some pg, w2)
                                   else (None, w2)))))))"

text \<open>
  \<open>checkForDuplicate\<close> starts the background validation without awaiting it. The
  model returns the started validation (problem number, page id, settings) beside the
  state; \<open>settle\<close> runs it to its end afterwards.
\<close>

type_synonym background = "nat \<times> string \<times> settings"

text \<open>The body of the \<open>try\<close> block. A throw carries the state reached when it is raised.\<close>

definition checkForDuplicate_try ::
  "world \<Rightarrow> app \<Rightarrow> nat \<Rightarrow> settings
     \<Rightarrow> (error \<times> app \<times> world) + (app \<times> world \<times> background option)" where
  "checkForDuplicate_try w a n st =
     (case getCachedPage w n of
        Inl e \<Rightarrow> Inl (e, a, w)
      | Inr (Some cached, w1) \<Rightarrow>
          Inr (showNotionLinks (showAlreadySavedBadge True
                 (a\<lparr>notionPageId := Some (pageId cached), notionPageUrl := Some (url cached)\<rparr>)),
               w1, Some (n, pageId cached, st))
      | Inr (None, w1) \<Rightarrow>
          (case findPageInNotion w1 n st of
             (Some pg, w2) \<Rightarrow>
               let a1 = showNotionLinks (showAlreadySavedBadge True
                          (a\<lparr>notionPageId := Some (page_id pg),
                             notionPageUrl := Some (page_url pg)\<rparr>)) in
               (case cachePage w2 n (page_id pg) (page_url pg) of
                  Inl e \<Rightarrow> Inl (e, a1, w2)
                | Inr w3 \<Rightarrow> Inr (a1, w3, None))
           | (None, w2) \<Rightarrow> Inr (showAlreadySavedBadge False a, w2, None)))"

definition checkForDuplicate ::
  "world \<Rightarrow> app \<Rightarrow> error + (app \<times> world \<times> background option)" where
  "checkForDuplicate w a =
     (case problemData_number a of
        None \<Rightarrow> Inr (showAlreadySavedBadge False a, w, None)
      | Some n \<Rightarrow>
          if n = 0 then Inr (showAlreadySavedBadge False a, w, None)
          else
            (case loadSettings w of
               Inl e \<Rightarrow> Inl e
             | Inr st \<Rightarrow>
                 if notionToken st = [] \<or> databaseId st = [] then Inr (a, w, None)
                 else
                   (case checkForDuplicate_try w a n st of
                      Inl (e, a1, w1) \<Rightarrow> Inr (showAlreadySavedBadge False a1, w1, None)
                    | Inr r \<Rightarrow> Inr r)))"

definition settle :: "app \<times> world \<times> background option \<Rightarrow> app \<times> world" where
  "settle r =
     (case r of
        (a, w, None) \<Rightarrow> (a, w)
      | (a, w, Some (n, pid, st)) \<Rightarrow> validateCacheInBackground w a n pid st)"

section \<open>Writing a record (popup.js, \<open>sendToNotion\<close>)\<close>

text \<open>The fields of the object \<open>prepareNotionData\<close> returns that the writer reads.\<close>

record notion_data =
  problemName :: string
  data_url :: string
  number :: "nat option"
  difficulty :: string
  status :: string
  timeSpent :: string
  dateCompleted :: string
  data_notes :: string
  language :: string
  neededHint :: bool
  canRedo :: bool
  tags :: "string list"
  code :: "string option"
  codeLanguage :: "string option"

definition truthy :: "jsvalue \<Rightarrow> bool" where
  "truthy v = (case v of JStr s \<Rightarrow> s \<noteq> [] | JBool b \<Rightarrow> b)"

definition String_of :: "jsvalue \<Rightarrow> string" where
  "String_of v = (case v of JStr s \<Rightarrow> s | JBool b \<Rightarrow> (if b then ''true'' else ''false''))"

definition buildPropertyValue :: "string \<Rightarrow> jsvalue \<Rightarrow> property_value" where
  "buildPropertyValue ty v =
     (if ty = ''rich_text'' then PRichText (String_of v)
      else if ty = ''url'' then PUrl (String_of v)
      else if ty = ''number'' then PNumberOf v
      else if ty = ''select'' then PSelect (String_of v)
      else if ty = ''date'' then PDate (String_of v)
      else if ty = ''checkbox'' then PCheckbox (truthy v)
      else PNull)"

text \<open>The alias lists and types of \<open>fieldConfigs\<close>, with the two checkbox fields pushed
  at its end. The aliases outside ASCII are the UTF-8 bytes of the source's literals.\<close>

definition fieldConfigs :: "notion_data \<Rightarrow> (string list \<times> string list \<times> jsvalue) list" where
  "fieldConfigs d =
     [([''Difficulty'', [CHR 0xE9, CHR 0x9A, CHR 0xBE, CHR 0xE5, CHR 0xBA, CHR 0xA6]],
       [''select''], JStr (difficulty d)),
      ([''Status'', [CHR 0xE7, CHR 0x8A, CHR 0xB6, CHR 0xE6, CHR 0x80, CHR 0x81]],
       [''select''], JStr (status d)),
      ([''URL'', ''Link'', [CHR 0xE9, CHR 0x93, CHR 0xBE, CHR 0xE6, CHR 0x8E, CHR 0xA5]],
       [''url''], JStr (data_url d)),
      ([''Time Spent'', [CHR 0xE8, CHR 0x80, CHR 0x97, CHR 0xE6, CHR 0x97, CHR 0xB6]],
       [''rich_text''], JStr (timeSpent d)),
      ([''Date Completed'',
        [CHR 0xE5, CHR 0xAE, CHR 0x8C, CHR 0xE6, CHR 0x88, CHR 0x90,
         CHR 0xE6, CHR 0x97, CHR 0xA5, CHR 0xE6, CHR 0x9C, CHR 0x9F]],
       [''date''], JStr (dateCompleted d)),
      ([''Notes'', [CHR 0xE5, CHR 0xA4, CHR 0x87, CHR 0xE6, CHR 0xB3, CHR 0xA8]],
       [''rich_text''], JStr (data_notes d)),
      ([''Language'', [CHR 0xE8, CHR 0xAF, CHR 0xAD, CHR 0xE8, CHR 0xA8, CHR 0x80]],
       [''select''], JStr (language d)),
      ([''Needed Hint'',
        [CHR 0xE9, CHR 0x9C, CHR 0x80, CHR 0xE8, CHR 0xA6, CHR 0x81,
         CHR 0xE6, CHR 0x8F, CHR 0x90, CHR 0xE7, CHR 0xA4, CHR 0xBA],
        ''Hint'', ''Did I need a hint?''],
       [''checkbox''], JBool (neededHint d)),
      ([''Can Redo'',
        [CHR 0xE5, CHR 0x8F, CHR 0xAF, CHR 0xE4, CHR 0xBB, CHR 0xA5,
         CHR 0xE9, CHR 0x87, CHR 0x8D, CHR 0xE5, CHR 0x81, CHR 0x9A],
        ''Redo'', ''Could I redo it in a week''],
       [''checkbox''], JBool (canRedo d))]"

definition add_field ::
  "schema \<Rightarrow> notion_properties \<Rightarrow> string list \<times> string list \<times> jsvalue \<Rightarrow> notion_properties" where
  \<comment> \<open>one turn of the loop over \<open>fieldConfigs\<close>\<close>
  "add_field dbProperties props field =
     (case field of (aliases, types, v) \<Rightarrow>
        (case findProperty dbProperties aliases types of
           None \<Rightarrow> props
         | Some (name, ty) \<Rightarrow>
             if ty = ''checkbox'' \<or> truthy v
             then AList.update name (buildPropertyValue ty v) props
             else props))"

definition buildNotionProperties :: "notion_data \<Rightarrow> schema \<Rightarrow> error + notion_properties" where
  "buildNotionProperties d dbProperties =
     (let titleProp =
            (case findProperty dbProperties [''Problem Name'', ''Name'', ''Title''] [''title''] of
               Some p \<Rightarrow> Some p
             | None \<Rightarrow> find (\<lambda>prop. snd prop = ''title'') dbProperties)
      in
      case titleProp of
        None \<Rightarrow> Inl (Error ''No title property found in database'')
      | Some (titleName, _) \<Rightarrow>
          let p0 = AList.update titleName (PTitle (problemName d) (data_url d)) [];
              p1 = (case findProperty dbProperties number_aliases [''number''] of
                      None \<Rightarrow> p0
                    | Some (numberName, _) \<Rightarrow>
                        (case number d of
                           None \<Rightarrow> p0
                         | Some n \<Rightarrow> if n \<noteq> 0 then AList.update numberName (PNumber n) p0 else p0));
              p2 = foldl (add_field dbProperties) p1 (fieldConfigs d);
              p3 = (case findProperty dbProperties
                           [''Tags'', ''Topics'',
                            [CHR 0xC3, CHR 0xA6, CHR 0xC2, CHR 0xA0, CHR 0xE2, CHR 0x80, CHR 0xA1,
                             CHR 0xC3, CHR 0xA7, CHR 0xC2, CHR 0xAD, CHR 0xC2, CHR 0xBE]]
                           [''multi_select''] of
                      None \<Rightarrow> p2
                    | Some (tagsName, _) \<Rightarrow>
                        if length (tags d) > 0 then AList.update tagsName (PMultiSelect (tags d)) p2
                        else p2)
          in Inr p3)"

function chunks :: "nat \<Rightarrow> string \<Rightarrow> string list" where
  "chunks n s = (if n = 0 \<or> s = [] then [] else take n s # chunks n (drop n s))"
  by pat_completeness auto
termination
  by (relation "measure (\<lambda>(n, s). length s)") auto

declare chunks.simps [simp del]

definition buildNotionChildren :: "notion_data \<Rightarrow> code_block list" where
  "buildNotionChildren d =
     (case code d of
        None \<Rightarrow> []
      | Some c \<Rightarrow>
          if c = [] then []
          else [\<lparr>rich_text = chunks 2000 c,
                 block_language = (if truthy_str (codeLanguage d) then the (codeLanguage d)
                                   else ''python'')\<rparr>])"

definition error_of :: "body option \<Rightarrow> string \<Rightarrow> error" where
  \<comment> \<open>\<open>const error = await response.json(); throw new Error(error.message || fallback)\<close>\<close>
  "error_of b fallback =
     (case b of
        None \<Rightarrow> SyntaxError
      | Some e \<Rightarrow> Error (if message e \<noteq> [] then message e else fallback))"

definition sendToNotion :: "world \<Rightarrow> notion_data \<Rightarrow> settings \<Rightarrow> (error + page) \<times> world" where
  "sendToNotion w d st =
     (let (dbResponse, w1) = fetch w (GetDatabase (databaseId st) (notionToken st)) in
      case dbResponse of
        Rejected \<Rightarrow> (Inl NetworkError, w1)
      | Response dcode b \<Rightarrow>
          if \<not> ok dcode then (Inl (error_of b ''Failed to fetch database schema''), w1)
          else (case b of
             None \<Rightarrow> (Inl SyntaxError, w1)
           | Some db \<Rightarrow>
               (case buildNotionProperties d (case properties db of None \<Rightarrow> [] | Some ps \<Rightarrow> ps) of
                  Inl e \<Rightarrow> (Inl e, w1)
                | Inr props \<Rightarrow>
                    let children = buildNotionChildren d;
                        (response, w2) =
                          fetch w1 (CreatePage (databaseId st) (notionToken st) props children)
                    in
                    (case response of
                       Rejected \<Rightarrow> (Inl NetworkError, w2)
                     | Response pcode pb \<Rightarrow>
                         if \<not> ok pcode then (Inl (error_of pb ''Failed to create Notion page''), w2)
                         else (case pb of
                                 None \<Rightarrow> (Inl SyntaxError, w2)
                               | Some created \<Rightarrow> (Inr (as_page created), w2))))))"

definition is_CreatePage :: "request \<Rightarrow> bool" where
  "is_CreatePage r = (case r of CreatePage _ _ _ _ \<Rightarrow> True | _ \<Rightarrow> False)"

section \<open>Settings validation (options.js, \<open>saveSettings\<close>)\<close>

definition is_hex :: "char \<Rightarrow> bool" where
  "is_hex c = (c \<in> set ''0123456789abcdefABCDEF'')"

definition strip_hyphens :: "string \<Rightarrow> string" where
  \<comment> \<open>\<open>databaseId.replace(/-/g, "")\<close>\<close>
  "strip_hyphens s = filter (\<lambda>c. c \<noteq> CHR ''-'') s"

definition all_hex :: "string \<Rightarrow> bool" where
  \<comment> \<open>\<open>/^[a-f0-9]+$/i.test(s)\<close>\<close>
  "all_hex s = (s \<noteq> [] \<and> list_all is_hex s)"

text \<open>\<open>saveSettings\<close> reads the two form fields; it returns the status message it shows,
  with its kind, and the world, where the settings are stored once they are accepted.
  When the write to storage rejects, the message ends with the text of the rejection,
  which is left out here.\<close>

definition saveSettings :: "world \<Rightarrow> string \<Rightarrow> string \<Rightarrow> (string \<times> string) \<times> world" where
  "saveSettings w tokenField databaseIdField =
     (let token = trim tokenField; dbId = trim databaseIdField in
      if token = [] \<or> dbId = [] then
        ((''Please fill in all required fields'', ''error''), w)
      else
        let isSupportedToken = (startsWith token ''secret_'' \<or> startsWith token ''ntn_'') in
        if \<not> isSupportedToken then
          ((''Integration token must start with '' @ [CHR 0x22] @ ''ntn_'' @ [CHR 0x22]
              @ '' or '' @ [CHR 0x22] @ ''secret_'' @ [CHR 0x22], ''error''), w)
        else if length dbId \<noteq> 32 \<or> \<not> all_hex (strip_hyphens dbId) then
          ((''Database ID must be 32 characters (letters and numbers)'', ''error''), w)
        else if storage_fails w (StorageSet [''notionToken'', ''databaseId'']) then
          ((''Failed to save settings: '', ''error''), w)
        else
          (([CHR 0xE2, CHR 0x9C, CHR 0x85] @ '' Settings saved successfully!'', ''success''),
           w\<lparr>local_settings := \<lparr>notionToken = token, databaseId = dbId\<rparr>\<rparr>))"

section \<open>Reading the page (content script, \<open>LeetCodeExtractor\<close>)\<close>

subsection \<open>\<open>extractCodeFromDom\<close>\<close>

text \<open>
  A \<open>.view-line\<close> element of the editor: its text and its two style offsets as
  \<open>parsePx\<close> returns them, finite numbers (\<open>0\<close> where the style does not parse).
\<close>

record view_line =
  style_top :: rat
  style_left :: rat
  innerText :: string

record line =
  index :: nat
  top_px :: rat
  left_px :: rat
  line_text :: string

fun replace_nbsp :: "string \<Rightarrow> string" where
  \<comment> \<open>the \<open>replace\<close> of every U+00A0, the bytes C2 A0, by a space\<close>
  "replace_nbsp (c # d # cs) =
     (if c = CHR 0xC2 \<and> d = CHR 0xA0 then CHR '' '' # replace_nbsp cs
      else c # replace_nbsp (d # cs))"
| "replace_nbsp cs = cs"

fun index_lines :: "nat \<Rightarrow> view_line list \<Rightarrow> line list" where
  \<comment> \<open>the first \<open>map\<close>, which numbers the elements from \<open>i\<close>\<close>
  "index_lines i [] = []"
| "index_lines i (l # ls) =
     \<lparr>index = i, top_px = style_top l, left_px = style_left l,
      line_text = replace_nbsp (innerText l)\<rparr> # index_lines (Suc i) ls"

definition compare_lines :: "line \<Rightarrow> line \<Rightarrow> rat" where
  "compare_lines a b =
     (if top_px a \<noteq> top_px b then top_px a - top_px b
      else if left_px a \<noteq> left_px b then left_px a - left_px b
      else of_nat (index a) - of_nat (index b))"

text \<open>\<open>Array.prototype.sort\<close> with a comparator is a stable sort; it is modelled by
  insertion from the left, each element going behind those it does not precede.\<close>

fun insert_by :: "('a \<Rightarrow> 'a \<Rightarrow> rat) \<Rightarrow> 'a \<Rightarrow> 'a list \<Rightarrow> 'a list" where
  "insert_by cmp x [] = [x]"
| "insert_by cmp x (y # ys) =
     (if cmp x y < 0 then x # y # ys else y # insert_by cmp x ys)"

definition sort_by :: "('a \<Rightarrow> 'a \<Rightarrow> rat) \<Rightarrow> 'a list \<Rightarrow> 'a list" where
  "sort_by cmp xs = foldl (\<lambda>acc x. insert_by cmp x acc) [] xs"

fun join :: "string \<Rightarrow> string list \<Rightarrow> string" where
  "join sep [] = []"
| "join sep [x] = x"
| "join sep (x # y # ys) = x @ sep @ join sep (y # ys)"

definition extractCodeFromDom :: "view_line list option \<Rightarrow> string option" where
  \<comment> \<open>the argument is the list of \<open>.view-line\<close> elements under the editor root, \<open>None\<close>
     when the page has no editor\<close>
  "extractCodeFromDom editorRoot =
     (case editorRoot of
        None \<Rightarrow> None
      | Some els \<Rightarrow>
          let lines = map line_text (sort_by compare_lines (index_lines 0 els));
              c = trim (join [CHR 0x0A] lines)
          in if c = [] then None else Some c)"

subsection \<open>\<open>extractTags\<close>\<close>

text \<open>The document, as far as \<open>extractTags\<close> reads it: for a selector, the
  \<open>textContent\<close> of each element \<open>querySelectorAll\<close> returns, in document order.\<close>

type_synonym document = "string \<Rightarrow> string list"

fun push_tags :: "string list \<Rightarrow> string list \<Rightarrow> string list" where
  \<comment> \<open>the \<open>forEach\<close> over the elements of one selector\<close>
  "push_tags tgs [] = tgs"
| "push_tags tgs (el # els) =
     (let tag = trim el in
      if tag \<noteq> [] \<and> tag \<notin> set tgs then push_tags (tgs @ [tag]) els
      else push_tags tgs els)"

fun tags_from_selectors :: "document \<Rightarrow> string list \<Rightarrow> string list \<Rightarrow> string list" where
  "tags_from_selectors doc tgs [] = tgs"
| "tags_from_selectors doc tgs (selector # selectors) =
     (let elements = doc selector in
      if length elements > 0 then
        (let tgs1 = push_tags tgs elements in
         if length tgs1 > 0 then tgs1 else tags_from_selectors doc tgs1 selectors)
      else tags_from_selectors doc tgs selectors)"

definition tag_selectors :: "string list" where
  "tag_selectors =
     [''a[class*='' @ [CHR 0x22] @ ''topic-tag'' @ [CHR 0x22] @ '']'',
      ''.topic-tag'',
      ''[data-cy='' @ [CHR 0x22] @ ''topic-tag'' @ [CHR 0x22] @ '']'',
      ''div[class*='' @ [CHR 0x22] @ ''TopicTags'' @ [CHR 0x22] @ ''] a'']"

definition line_terminator_at :: "string \<Rightarrow> bool" where
  \<comment> \<open>the characters \<open>.\<close> does not match: LF, CR, U+2028, U+2029\<close>
  "line_terminator_at s =
     (startsWith s [CHR 0x0A] \<or> startsWith s [CHR 0x0D]
      \<or> startsWith s [CHR 0xE2, CHR 0x80, CHR 0xA8] \<or> startsWith s [CHR 0xE2, CHR 0x80, CHR 0xA9])"

fun lazy_until_bracket :: "string \<Rightarrow> string option" where
  \<comment> \<open>\<open>(.*?)\]\<close> from the start of the string: the group\<close>
  "lazy_until_bracket [] = None"
| "lazy_until_bracket (c # cs) =
     (if c = CHR '']'' then Some []
      else if line_terminator_at (c # cs) then None
      else map_option ((#) c) (lazy_until_bracket cs))"

definition topicTags_open :: string where
  "topicTags_open = [CHR 0x22] @ ''topicTags'' @ [CHR 0x22] @ '':[''"

fun match_topicTags :: "string \<Rightarrow> string option" where
  \<comment> \<open>\<open>match(/"topicTags":\[(.*?)\]/)\<close>: group 1 of the leftmost match\<close>
  "match_topicTags [] = None"
| "match_topicTags (c # cs) =
     (if startsWith (c # cs) topicTags_open then
        (case lazy_until_bracket (drop (length topicTags_open) (c # cs)) of
           Some g \<Rightarrow> Some g
         | None \<Rightarrow> match_topicTags cs)
      else match_topicTags cs)"

definition name_open :: string where
  "name_open = [CHR 0x22] @ ''name'' @ [CHR 0x22] @ '':'' @ [CHR 0x22]"

definition not_quote :: "char \<Rightarrow> bool" where
  "not_quote c = (c \<noteq> CHR 0x22)"

function name_matches :: "string \<Rightarrow> string list" where
  "name_matches [] = []"
| "name_matches (c # cs) =
     (if startsWith (c # cs) name_open
         \<and> takeWhile not_quote (drop (length name_open) (c # cs)) \<noteq> []
         \<and> dropWhile not_quote (drop (length name_open) (c # cs)) \<noteq> []
      then takeWhile not_quote (drop (length name_open) (c # cs))
             # name_matches (tl (dropWhile not_quote (drop (length name_open) (c # cs))))
      else name_matches cs)"
  by pat_completeness auto
termination
proof (relation "measure length")
  show "wf (measure length)" by simp
next
  fix c :: char and cs :: string
  have "length (dropWhile not_quote (drop (length name_open) (c # cs)))
          \<le> length (drop (length name_open) (c # cs))"
    by (rule length_dropWhile_le)
  then have "length (tl (dropWhile not_quote (drop (length name_open) (c # cs)))) < length (c # cs)"
    by (simp add: name_open_def)
  then show "(tl (dropWhile not_quote (drop (length name_open) (c # cs))), c # cs) \<in> measure length"
    by simp
next
  fix c :: char and cs :: string
  show "(cs, c # cs) \<in> measure length" by simp
qed

declare name_matches.simps [simp del]

fun tags_from_scripts :: "string list \<Rightarrow> string list" where
  \<comment> \<open>the loop over the \<open>script\<close> elements; \<open>tags\<close> is empty when it starts\<close>
  "tags_from_scripts [] = []"
| "tags_from_scripts (script # scripts) =
     (if includes_str script ''topicTags'' then
        (case match_topicTags script of
           Some g \<Rightarrow> name_matches g
         | None \<Rightarrow> tags_from_scripts scripts)
      else tags_from_scripts scripts)"

definition extractTags :: "document \<Rightarrow> string list" where
  "extractTags doc =
     (let tgs = tags_from_selectors doc [] tag_selectors in
      if length tgs = 0 then tgs @ tags_from_scripts (doc ''script'') else tgs)"

section \<open>Predicates the theorems are stated with\<close>

definition property_matches :: "string list \<Rightarrow> string list \<Rightarrow> string \<times> string \<Rightarrow> bool" where
  \<comment> \<open>the lower-cased name contains a lower-cased alias, and the type is allowed\<close>
  "property_matches aliases allowedTypes p =
     ((\<exists>alias \<in> set aliases. \<exists>u v. toLowerCase (fst p) = u @ toLowerCase alias @ v)
      \<and> (allowedTypes = [] \<or> snd p \<in> set allowedTypes))"

definition line_before :: "line \<Rightarrow> line \<Rightarrow> bool" where
  \<comment> \<open>the order by vertical offset, then horizontal offset, then index\<close>
  "line_before a b =
     (top_px a < top_px b
      \<or> (top_px a = top_px b
          \<and> (left_px a < left_px b \<or> (left_px a = left_px b \<and> index a \<le> index b))))"

definition fetch_fails :: "response \<Rightarrow> bool" where
  \<comment> \<open>the \<open>fetch\<close> rejects, the status is not a success, or the body is not JSON\<close>
  "fetch_fails r = (case r of Rejected \<Rightarrow> True | Response c b \<Rightarrow> \<not> ok c \<or> b = None)"

definition lookup_error :: "world \<Rightarrow> nat \<Rightarrow> settings \<Rightarrow> bool" where
  \<comment> \<open>the schema fetch fails, or the schema has no number-typed property under the
     aliases, or the query fails\<close>
  "lookup_error w n st =
     (case remote w (GetDatabase (databaseId st) (notionToken st)) of
        Rejected \<Rightarrow> True
      | Response c b \<Rightarrow>
          \<not> ok c \<or>
          (case b of
             None \<Rightarrow> True
           | Some db \<Rightarrow>
               (case findProperty (case properties db of None \<Rightarrow> [] | Some ps \<Rightarrow> ps)
                       number_aliases [''number''] of
                  None \<Rightarrow> True
                | Some (name, ty) \<Rightarrow>
                    fetch_fails (remote w
                      (QueryDatabase (databaseId st) (notionToken st) name n)))))"

definition cache_read_fails :: "world \<Rightarrow> nat \<Rightarrow> bool" where
  \<comment> \<open>the read of the cache entry rejects, or the entry has expired and its removal
     rejects\<close>
  "cache_read_fails w n =
     (storage_fails w (StorageGet [problem_key n])
      \<or> (case local_cache w (problem_key n) of
            None \<Rightarrow> False
          | Some e \<Rightarrow> clock w - timestamp e > CACHE_TTL
                      \<and> storage_fails w (StorageRemove (problem_key n))))"

definition cache_misses :: "world \<Rightarrow> nat \<Rightarrow> bool" where
  \<comment> \<open>the cache is read and holds no entry for the problem, or an expired one that is
     removed\<close>
  "cache_misses w n =
     (\<not> storage_fails w (StorageGet [problem_key n])
      \<and> (case local_cache w (problem_key n) of
            None \<Rightarrow> True
          | Some e \<Rightarrow> clock w - timestamp e > CACHE_TTL
                      \<and> \<not> storage_fails w (StorageRemove (problem_key n))))"

text \<open>
  The specification of code-line reconstruction, in its own words: the lines in the
  order of their vertical offset, then their horizontal offset, then their position
  in the DOM; joined with newlines; trimmed. It is stated with the library's sort on
  the lexicographic order of the triples, and with the position \<open>enumerate\<close> gives.
\<close>

definition reconstruct_spec :: "view_line list \<Rightarrow> string option" where
  "reconstruct_spec els =
     (let ordered = sort_key (\<lambda>(i, l). (style_top l, style_left l, i)) (enumerate 0 els);
          t = trim (join [CHR 0x0A] (map (\<lambda>(i, l). replace_nbsp (innerText l)) ordered))
      in if t = [] then None else Some t)"

definition mk_line :: "nat \<times> view_line \<Rightarrow> line" where
  \<comment> \<open>the object the first \<open>map\<close> builds from a position and an element\<close>
  "mk_line p = \<lparr>index = fst p, top_px = style_top (snd p), left_px = style_left (snd p),
                 line_text = replace_nbsp (innerText (snd p))\<rparr>"

definition line_key :: "line \<Rightarrow> rat \<times> rat \<times> nat" where
  "line_key a = (top_px a, left_px a, index a)"

section \<open>Concrete inputs\<close>

definition offline :: "request \<Rightarrow> response" where
  \<comment> \<open>every \<open>fetch\<close> rejects\<close>
  "offline req = Rejected"

definition entry_abc :: cache_entry where
  "entry_abc = \<lparr>pageId = ''abc'', url = ''https://www.notion.so/abc'', timestamp = 0\<rparr>"

definition settings_0 :: settings where
  "settings_0 = \<lparr>notionToken = ''secret_t'', databaseId = ''db''\<rparr>"

definition world_42 :: "int \<Rightarrow> (storage_op \<Rightarrow> bool) \<Rightarrow> (request \<Rightarrow> response) \<Rightarrow> world" where
  \<comment> \<open>problem 42 is cached, written at time 0; the settings are stored\<close>
  "world_42 now faults api =
     \<lparr>clock = now, local_cache = [''problem_42'' \<mapsto> entry_abc], local_settings = settings_0,
      storage_fails = faults, remote = api, sent = []\<rparr>"

definition unchecked_42 :: app where
  \<comment> \<open>the popup when problem 42 has been extracted and not yet looked up\<close>
  "unchecked_42 =
     \<lparr>problemData_number = Some 42, notionPageId = None, notionPageUrl = None,
      alreadySavedBadge = False, notionLinks = False\<rparr>"

definition empty_schema_api :: "request \<Rightarrow> response" where
  \<comment> \<open>the database answers with the schema \<open>{}\<close>; nothing else answers\<close>
  "empty_schema_api req =
     (case req of
        GetDatabase _ _ \<Rightarrow>
          Response 200 (Some \<lparr>properties = Some [], results = None,
            as_page = \<lparr>page_id = [], page_url = [], archived = False, in_trash = False\<rparr>,
            message = []\<rparr>)
      | _ \<Rightarrow> Rejected)"

definition duplicate_group :: string where
  "duplicate_group =
     ''{'' @ [CHR 0x22] @ ''name'' @ [CHR 0x22] @ '':'' @ [CHR 0x22] @ ''Array'' @ [CHR 0x22]
       @ ''},{'' @ [CHR 0x22] @ ''name'' @ [CHR 0x22] @ '':'' @ [CHR 0x22] @ ''Array''
       @ [CHR 0x22] @ ''}''"

definition duplicate_script :: string where
  \<comment> \<open>a script whose \<open>topicTags\<close> array names the tag \<open>Array\<close> twice\<close>
  "duplicate_script =
     ''{'' @ [CHR 0x22] @ ''topicTags'' @ [CHR 0x22] @ '':['' @ duplicate_group @ '']}''"

definition script_only :: "string \<Rightarrow> document" where
  \<comment> \<open>a page where no tag selector matches and one script element holds \<open>s\<close>\<close>
  "script_only s selector = (if selector = ''script'' then [s] else [])"

definition line_b :: view_line where
  "line_b = \<lparr>style_top = 40, style_left = 0, innerText = ''b''\<rparr>"

definition line_a :: view_line where
  "line_a = \<lparr>style_top = 0, style_left = 0, innerText = ''a''\<rparr>"

definition line_c :: view_line where
  "line_c = \<lparr>style_top = 40, style_left = 10, innerText = ''c''\<rparr>"

definition line_p :: view_line where
  "line_p = \<lparr>style_top = 20, style_left = 0, innerText = ''p''\<rparr>"

definition line_q :: view_line where
  \<comment> \<open>the offsets of \<open>line_p\<close>\<close>
  "line_q = \<lparr>style_top = 20, style_left = 0, innerText = ''q''\<rparr>"

definition line_x :: view_line where
  "line_x = \<lparr>style_top = 0, style_left = 10, innerText = ''x''\<rparr>"

definition line_y :: view_line where
  \<comment> \<open>below \<open>line_x\<close> and left of it\<close>
  "line_y = \<lparr>style_top = 40, style_left = 0, innerText = ''y''\<rparr>"

section \<open>Manual time input: results\<close>

lemma parse_90_00: "parseTimeToMs ''90:00'' = Some 5400000"
  by (simp add: parseTimeToMs_def trim_def strip_start.simps white_space_def all_digits_def is_digit_def
        Number_of_def digit_val_def)

lemma parse_1_30_00: "parseTimeToMs ''1:30:00'' = Some 5400000"
  by (simp add: parseTimeToMs_def trim_def strip_start.simps white_space_def all_digits_def is_digit_def
        Number_of_def digit_val_def)

lemma parse_45: "parseTimeToMs ''45'' = Some 45000"
  by (simp add: parseTimeToMs_def trim_def strip_start.simps white_space_def all_digits_def is_digit_def
        Number_of_def digit_val_def)

lemma parse_1_90_00: "parseTimeToMs ''1:90:00'' = None"
  by (simp add: parseTimeToMs_def trim_def strip_start.simps white_space_def all_digits_def is_digit_def
        Number_of_def digit_val_def)

text \<open>
  C3, as the claim states it, fails: the input \<open>90:00\<close> is not rejected. The bound of 59
  on the minutes is guarded by \<open>parts.length === 3\<close>, so a two-part input may carry
  any number of minutes.
\<close>

theorem C3_ninety_minutes_not_rejected: "parseTimeToMs ''90:00'' \<noteq> None"
  by (simp add: parse_90_00)

text \<open>
  C3, amended: the parser accepts \<open>90:00\<close> as ninety minutes, 5400000 milliseconds; it
  rejects minutes above 59 in the three-part form (\<open>1:90:00\<close>); it parses \<open>1:30:00\<close>
  to 5400000 and the bare seconds \<open>45\<close> to 45000 milliseconds.
\<close>

theorem C3_parseTimeToMs_examples:
  "parseTimeToMs ''90:00'' = Some 5400000
   \<and> parseTimeToMs ''1:90:00'' = None
   \<and> parseTimeToMs ''1:30:00'' = Some 5400000
   \<and> parseTimeToMs ''45'' = Some 45000"
  by (simp only: parse_90_00 parse_1_90_00 parse_1_30_00 parse_45 simp_thms)

section \<open>Schema property resolution: results\<close>

lemma startsWith_iff: "startsWith s p \<longleftrightarrow> (\<exists>q. s = p @ q)"
  by (induction s p rule: startsWith.induct) auto

lemma includes_str_iff: "includes_str s sub \<longleftrightarrow> (\<exists>u v. s = u @ sub @ v)"
proof (induction s)
  case Nil
  then show ?case by auto
next
  case (Cons c cs)
  show ?case
  proof
    assume "includes_str (c # cs) sub"
    then consider "startsWith (c # cs) sub" | "includes_str cs sub" by auto
    then show "\<exists>u v. c # cs = u @ sub @ v"
    proof cases
      case 1
      then obtain q where "c # cs = sub @ q" by (auto simp: startsWith_iff)
      then have "c # cs = [] @ sub @ q" by simp
      then show ?thesis by blast
    next
      case 2
      then obtain u v where "cs = u @ sub @ v" using Cons.IH by blast
      then have "c # cs = (c # u) @ sub @ v" by simp
      then show ?thesis by blast
    qed
  next
    assume "\<exists>u v. c # cs = u @ sub @ v"
    then obtain u v where uv: "c # cs = u @ sub @ v" by blast
    show "includes_str (c # cs) sub"
    proof (cases u)
      case Nil
      with uv have "startsWith (c # cs) sub" by (auto simp: startsWith_iff)
      then show ?thesis by simp
    next
      case (Cons a u')
      with uv have "cs = u' @ sub @ v" by simp
      then have "includes_str cs sub" using Cons.IH by blast
      then show ?thesis by simp
    qed
  qed
qed

lemma isMatch_iff:
  "isMatch name aliases \<longleftrightarrow>
     (\<exists>alias \<in> set aliases. \<exists>u v. toLowerCase name = u @ toLowerCase alias @ v)"
proof -
  have "\<exists>u v. toLowerCase name = u @ toLowerCase a @ v"
    if "toLowerCase name = toLowerCase a" for a
  proof -
    from that have "toLowerCase name = [] @ toLowerCase a @ []" by simp
    then show ?thesis by blast
  qed
  then show ?thesis
    unfolding isMatch_def list_ex_iff includes_str_iff by blast
qed

lemma findProperty_Some_first:
  "findProperty ps aliases allowedTypes = Some r \<Longrightarrow>
     \<exists>pre post. ps = pre @ r # post \<and> property_matches aliases allowedTypes r
        \<and> (\<forall>q \<in> set pre. \<not> property_matches aliases allowedTypes q)"
proof (induction ps aliases allowedTypes rule: findProperty.induct)
  case (1 aliases allowedTypes)
  then show ?case by simp
next
  case (2 name ty rest aliases allowedTypes)
  show ?case
  proof (cases "isMatch name aliases \<and> (length allowedTypes = 0 \<or> ty \<in> set allowedTypes)")
    case True
    with "2.prems" have r: "r = (name, ty)" by simp
    from True have "property_matches aliases allowedTypes r"
      by (auto simp: r property_matches_def isMatch_iff)
    moreover have "(name, ty) # rest = [] @ r # rest" by (simp add: r)
    ultimately show ?thesis by fastforce
  next
    case False
    with "2.prems" have "findProperty rest aliases allowedTypes = Some r" by auto
    with "2.IH" False obtain pre post where
      pp: "rest = pre @ r # post" "property_matches aliases allowedTypes r"
          "\<forall>q \<in> set pre. \<not> property_matches aliases allowedTypes q"
      by blast
    from False have nm: "\<not> property_matches aliases allowedTypes (name, ty)"
      by (auto simp: property_matches_def isMatch_iff)
    have "(name, ty) # rest = ((name, ty) # pre) @ r # post" using pp(1) by simp
    moreover have "\<forall>q \<in> set ((name, ty) # pre). \<not> property_matches aliases allowedTypes q"
      using pp(3) nm by simp
    ultimately show ?thesis using pp(2) by blast
  qed
qed

lemma findProperty_None_iff:
  "findProperty ps aliases allowedTypes = None \<longleftrightarrow>
     (\<forall>q \<in> set ps. \<not> property_matches aliases allowedTypes q)"
  by (induction ps aliases allowedTypes rule: findProperty.induct)
     (auto simp: property_matches_def isMatch_iff)

lemma findProperty_first_Some:
  "property_matches aliases allowedTypes r \<Longrightarrow>
   \<forall>q \<in> set pre. \<not> property_matches aliases allowedTypes q \<Longrightarrow>
   findProperty (pre @ r # post) aliases allowedTypes = Some r"
proof (induction pre)
  case Nil
  then show ?case
    by (cases r) (auto simp: property_matches_def isMatch_iff)
next
  case (Cons p pre)
  then show ?case
    by (cases p) (auto simp: property_matches_def isMatch_iff)
qed

lemma lower_Status: "toLowerCase ''Status'' = ''status''"
  by (simp add: toLowerCase_def lower_char_def)

lemma lower_Needed_Hint_Status: "toLowerCase ''Needed Hint Status'' = ''needed hint status''"
  by (simp add: toLowerCase_def lower_char_def)

lemma findProperty_Status_declared_first:
  "findProperty [(''Status'', ''select''), (''Needed Hint Status'', ''select'')]
     [''Status''] [''select''] = Some (''Status'', ''select'')"
  by (simp add: isMatch_def lower_Status lower_Needed_Hint_Status)

lemma findProperty_Status_declared_second:
  "findProperty [(''Needed Hint Status'', ''select''), (''Status'', ''select'')]
     [''Status''] [''select''] = Some (''Needed Hint Status'', ''select'')"
  by (simp add: isMatch_def lower_Status lower_Needed_Hint_Status)

text \<open>
  C4, as the claim states it, fails: with \<open>Needed Hint Status\<close> declared before
  \<open>Status\<close>, resolving the alias \<open>Status\<close> does not return \<open>Status\<close>.
\<close>

theorem C4_exact_match_not_preferred:
  "findProperty [(''Needed Hint Status'', ''select''), (''Status'', ''select'')]
     [''Status''] [''select''] \<noteq> Some (''Status'', ''select'')"
  unfolding findProperty_Status_declared_second by simp

text \<open>
  C4, amended: property resolution returns the first property, in declaration order,
  whose name case-insensitively contains an alias of the list and whose type is allowed
  (an exact match is one way of containing); an exactly-matching property is returned
  only when no such property is declared before it. Resolving the alias \<open>Status\<close>
  against the select properties \<open>Status\<close> and \<open>Needed Hint Status\<close> returns \<open>Status\<close>
  when \<open>Status\<close> is declared first and \<open>Needed Hint Status\<close> when that is declared first.
\<close>

theorem C4_findProperty_first_declared_match:
  "(findProperty ps aliases allowedTypes = Some r \<longleftrightarrow>
      (\<exists>pre post. ps = pre @ r # post \<and> property_matches aliases allowedTypes r
         \<and> (\<forall>q \<in> set pre. \<not> property_matches aliases allowedTypes q)))
   \<and> findProperty [(''Status'', ''select''), (''Needed Hint Status'', ''select'')]
        [''Status''] [''select''] = Some (''Status'', ''select'')
   \<and> findProperty [(''Needed Hint Status'', ''select''), (''Status'', ''select'')]
        [''Status''] [''select''] = Some (''Needed Hint Status'', ''select'')"
proof (intro conjI)
  show "findProperty ps aliases allowedTypes = Some r \<longleftrightarrow>
      (\<exists>pre post. ps = pre @ r # post \<and> property_matches aliases allowedTypes r
         \<and> (\<forall>q \<in> set pre. \<not> property_matches aliases allowedTypes q))"
    using findProperty_Some_first findProperty_first_Some by blast
qed (rule findProperty_Status_declared_first findProperty_Status_declared_second)+

theorem C4_findProperty_first_declared_match_witness:
  "findProperty [(''Needed Hint Status'', ''select''), (''Status'', ''select'')]
     [''Status''] [''select''] = Some (''Needed Hint Status'', ''select'')
   \<and> (\<exists>pre post. [(''Needed Hint Status'', ''select''), (''Status'', ''select'')]
          = pre @ (''Needed Hint Status'', ''select'') # post
        \<and> property_matches [''Status''] [''select''] (''Needed Hint Status'', ''select''))"
  using C4_findProperty_first_declared_match
    [of "[(''Needed Hint Status'', ''select''), (''Status'', ''select'')]"
        "[''Status'']" "[''select'']" "(''Needed Hint Status'', ''select'')"]
  by blast

section \<open>The local cache: results\<close>

lemma key42: "problem_key 42 = ''problem_42''"
  by (simp add: problem_key_def string_of_nat.simps[of 42] string_of_nat.simps[of 4])

lemma getCachedPage_expired:
  assumes "local_cache w (problem_key n) = Some e"
      and "clock w - timestamp e > CACHE_TTL"
      and "\<not> storage_fails w (StorageGet [problem_key n])"
      and "\<not> storage_fails w (StorageRemove (problem_key n))"
  shows "getCachedPage w n =
           Inr (None, w\<lparr>local_cache := (local_cache w)(problem_key n := None)\<rparr>)"
  using assms by (simp add: getCachedPage_def Let_def)

lemma getCachedPage_absent:
  assumes "local_cache w (problem_key n) = None"
      and "\<not> storage_fails w (StorageGet [problem_key n])"
  shows "getCachedPage w n = Inr (None, w)"
  using assms by (simp add: getCachedPage_def Let_def)

lemma getCachedPage_Some:
  assumes "getCachedPage w n = Inr (Some e, w')"
  shows "local_cache w (problem_key n) = Some e \<and> w' = w
           \<and> clock w - timestamp e \<le> CACHE_TTL"
  using assms by (auto simp: getCachedPage_def Let_def split: if_splits option.splits)

text \<open>
  C5: for a stored entry older than the TTL of one hour, where the storage calls
  themselves succeed, \<open>getCachedPage\<close> returns absent and removes the entry; the same
  lookup made again, at any later time, returns absent again, without an error and
  without changing the store; and whenever \<open>getCachedPage\<close> returns an entry it is the
  whole stored entry, within the TTL, with the store unchanged.
\<close>

theorem C5_getCachedPage_expired_removed:
  assumes "local_cache w (problem_key n) = Some e"
      and "clock w - timestamp e > CACHE_TTL"
      and "\<not> storage_fails w (StorageGet [problem_key n])"
      and "\<not> storage_fails w (StorageRemove (problem_key n))"
  shows "CACHE_TTL = 3600000
     \<and> (\<exists>w1. getCachedPage w n = Inr (None, w1)
           \<and> local_cache w1 = (local_cache w)(problem_key n := None)
           \<and> (\<forall>t. getCachedPage (w1\<lparr>clock := t\<rparr>) n = Inr (None, w1\<lparr>clock := t\<rparr>)))
     \<and> (\<forall>w0 k r w2. getCachedPage w0 k = Inr (Some r, w2) \<longrightarrow>
           local_cache w0 (problem_key k) = Some r \<and> w2 = w0
           \<and> clock w0 - timestamp r \<le> CACHE_TTL)"
proof -
  let ?w1 = "w\<lparr>local_cache := (local_cache w)(problem_key n := None)\<rparr>"
  have 1: "getCachedPage w n = Inr (None, ?w1)"
    using assms by (rule getCachedPage_expired)
  have 2: "getCachedPage (?w1\<lparr>clock := t\<rparr>) n = Inr (None, ?w1\<lparr>clock := t\<rparr>)" for t
    using assms(3) by (intro getCachedPage_absent) simp_all
  have 3: "\<forall>w0 k r w2. getCachedPage w0 k = Inr (Some r, w2) \<longrightarrow>
             local_cache w0 (problem_key k) = Some r \<and> w2 = w0
             \<and> clock w0 - timestamp r \<le> CACHE_TTL"
    using getCachedPage_Some by blast
  have 4: "CACHE_TTL = 3600000" by (simp add: CACHE_TTL_def)
  show ?thesis using 1 2 3 4 by auto
qed

theorem C5_getCachedPage_expired_removed_witness:
  "local_cache (world_42 3600001 (\<lambda>op. False) offline) (problem_key 42) = Some entry_abc
   \<and> clock (world_42 3600001 (\<lambda>op. False) offline) - timestamp entry_abc > CACHE_TTL
   \<and> (\<exists>w1. getCachedPage (world_42 3600001 (\<lambda>op. False) offline) 42 = Inr (None, w1)
         \<and> local_cache w1 (problem_key 42) = None
         \<and> getCachedPage (w1\<lparr>clock := 3600002\<rparr>) 42 = Inr (None, w1\<lparr>clock := 3600002\<rparr>))"
proof -
  let ?w = "world_42 3600001 (\<lambda>op. False) offline"
  have h1: "local_cache ?w (problem_key 42) = Some entry_abc"
    by (simp add: world_42_def key42)
  have h2: "clock ?w - timestamp entry_abc > CACHE_TTL"
    by (simp add: world_42_def entry_abc_def CACHE_TTL_def)
  have h3: "\<not> storage_fails ?w (StorageGet [problem_key 42])"
    by (simp add: world_42_def)
  have h4: "\<not> storage_fails ?w (StorageRemove (problem_key 42))"
    by (simp add: world_42_def)
  from C5_getCachedPage_expired_removed [OF h1 h2 h3 h4]
  obtain w1 where "getCachedPage ?w 42 = Inr (None, w1)"
    and "local_cache w1 = (local_cache ?w)(problem_key 42 := None)"
    and "\<forall>t. getCachedPage (w1\<lparr>clock := t\<rparr>) 42 = Inr (None, w1\<lparr>clock := t\<rparr>)"
    by blast
  then have "getCachedPage ?w 42 = Inr (None, w1) \<and> local_cache w1 (problem_key 42) = None
         \<and> getCachedPage (w1\<lparr>clock := 3600002\<rparr>) 42 = Inr (None, w1\<lparr>clock := 3600002\<rparr>)"
    by simp
  with h1 h2 show ?thesis by blast
qed

text \<open>
  C6: for every problem number, page id and url, where the storage calls themselves
  succeed: \<open>cachePage\<close> followed by \<open>getCachedPage\<close> at a time \<open>t\<close> within the TTL of the
  write returns an entry with the same page id and the same url.
\<close>

theorem C6_cachePage_getCachedPage_round_trip:
  assumes "\<not> storage_fails w (StorageSet [problem_key n])"
      and "\<not> storage_fails w (StorageGet [problem_key n])"
      and "t - clock w \<le> CACHE_TTL"
  shows "\<exists>w1 e. cachePage w n pid purl = Inr w1
           \<and> getCachedPage (w1\<lparr>clock := t\<rparr>) n = Inr (Some e, w1\<lparr>clock := t\<rparr>)
           \<and> pageId e = pid \<and> url e = purl"
  using assms by (simp add: cachePage_def getCachedPage_def Let_def)

theorem C6_cachePage_getCachedPage_round_trip_witness:
  "\<not> storage_fails (world_42 1000 (\<lambda>op. False) offline) (StorageSet [problem_key 7])
   \<and> \<not> storage_fails (world_42 1000 (\<lambda>op. False) offline) (StorageGet [problem_key 7])
   \<and> 3601000 - clock (world_42 1000 (\<lambda>op. False) offline) \<le> CACHE_TTL
   \<and> (\<exists>w1 e. cachePage (world_42 1000 (\<lambda>op. False) offline) 7 ''p7'' ''https://www.notion.so/p7''
                  = Inr w1
         \<and> getCachedPage (w1\<lparr>clock := 3601000\<rparr>) 7 = Inr (Some e, w1\<lparr>clock := 3601000\<rparr>)
         \<and> pageId e = ''p7'' \<and> url e = ''https://www.notion.so/p7'')"
proof -
  let ?w = "world_42 1000 (\<lambda>op. False) offline"
  have h1: "\<not> storage_fails ?w (StorageSet [problem_key 7])"
    by (simp add: world_42_def)
  have h2: "\<not> storage_fails ?w (StorageGet [problem_key 7])"
    by (simp add: world_42_def)
  have h3: "3601000 - clock ?w \<le> CACHE_TTL"
    by (simp add: world_42_def CACHE_TTL_def)
  from C6_cachePage_getCachedPage_round_trip [OF h1 h2 h3, of "''p7''" "''https://www.notion.so/p7''"]
    h1 h2 h3
  show ?thesis by blast
qed

section \<open>Background validation of a cache hit: results\<close>

lemma checkPageExists_Rejected:
  "remote w (GetPage pid (notionToken st)) = Rejected \<Longrightarrow>
   checkPageExists w pid st = (False, w\<lparr>sent := sent w @ [GetPage pid (notionToken st)]\<rparr>)"
  by (simp add: checkPageExists_def fetch_def)

lemma validateCacheInBackground_Rejected:
  assumes "remote w (GetPage pid (notionToken st)) = Rejected"
      and "\<not> storage_fails w (StorageRemove (problem_key n))"
  shows "validateCacheInBackground w a n pid st =
           (a\<lparr>notionPageId := None, notionPageUrl := None, alreadySavedBadge := False,
              notionLinks := False\<rparr>,
            w\<lparr>sent := sent w @ [GetPage pid (notionToken st)],
              local_cache := (local_cache w)(problem_key n := None)\<rparr>)"
  using assms
  by (simp add: validateCacheInBackground_def checkPageExists_Rejected showAlreadySavedBadge_def)

lemma checkForDuplicate_cache_hit_42:
  "checkForDuplicate (world_42 1000 (\<lambda>op. False) offline) unchecked_42 =
     Inr (unchecked_42\<lparr>notionPageId := Some ''abc'',
            notionPageUrl := Some ''https://www.notion.so/abc'',
            alreadySavedBadge := True, notionLinks := True\<rparr>,
          world_42 1000 (\<lambda>op. False) offline,
          Some (42, ''abc'', settings_0))"
  by (simp add: checkForDuplicate_def unchecked_42_def loadSettings_def world_42_def
        checkForDuplicate_try_def getCachedPage_def key42 CACHE_TTL_def entry_abc_def
        settings_0_def showNotionLinks_def showAlreadySavedBadge_def truthy_str_def)

text \<open>
  C1 does not hold of the code. Problem 42 is cached and every \<open>fetch\<close> rejects: the
  duplicate check ends in Found from the cache, with the entry in place, and the
  background validation it started then hides the badge, clears the page id and removes
  the entry. \<open>checkPageExists\<close> turns the rejection into \<open>false\<close> in its own \<open>catch\<close>, so
  the \<open>catch\<close> of \<open>validateCacheInBackground\<close>, whose comment says the cache is left to
  expire, is never reached by a network error.
\<close>

theorem C1_network_error_evicts_cache:
  "\<exists>a1 w1 bg.
     checkForDuplicate (world_42 1000 (\<lambda>op. False) offline) unchecked_42 = Inr (a1, w1, Some bg)
     \<and> alreadySavedBadge a1 \<and> notionPageId a1 = Some ''abc''
     \<and> local_cache w1 ''problem_42'' = Some entry_abc
     \<and> remote w1 (GetPage ''abc'' ''secret_t'') = Rejected
     \<and> (case settle (a1, w1, Some bg) of (a2, w2) \<Rightarrow>
           \<not> alreadySavedBadge a2 \<and> notionPageId a2 = None
           \<and> local_cache w2 ''problem_42'' = None
           \<and> sent w2 = [GetPage ''abc'' ''secret_t''])"
  unfolding checkForDuplicate_cache_hit_42
  apply (simp add: settle_def)
  apply (subst validateCacheInBackground_Rejected)
    apply (simp_all add: world_42_def offline_def key42 unchecked_42_def settings_0_def)
  done

section \<open>Writing a record: results\<close>

lemma find_no_title:
  "\<forall>p \<in> set sch. snd p \<noteq> ''title'' \<Longrightarrow> find (\<lambda>prop. snd prop = ''title'') sch = None"
  by (auto simp: find_None_iff)

lemma findProperty_no_title:
  "\<forall>p \<in> set sch. snd p \<noteq> ''title'' \<Longrightarrow> findProperty sch aliases [''title''] = None"
  by (simp add: findProperty_None_iff property_matches_def)

lemma buildNotionProperties_no_title:
  "\<forall>p \<in> set sch. snd p \<noteq> ''title'' \<Longrightarrow>
   buildNotionProperties d sch = Inl (Error ''No title property found in database'')"
  by (simp add: buildNotionProperties_def findProperty_no_title find_no_title)

text \<open>
  C8: against a schema with no property of type \<open>title\<close>, \<open>buildNotionProperties\<close> throws
  the error \<open>No title property found in database\<close>; and when the database answers the
  schema request with such a schema, \<open>sendToNotion\<close> fails with that error having issued
  the schema request only, so no page-creation request.
\<close>

theorem C8_no_title_property_no_write:
  assumes "\<forall>p \<in> set sch. snd p \<noteq> ''title''"
  shows "buildNotionProperties d sch = Inl (Error ''No title property found in database'')
     \<and> (\<forall>w st c db.
           remote w (GetDatabase (databaseId st) (notionToken st)) = Response c (Some db)
           \<and> ok c \<and> (case properties db of None \<Rightarrow> [] | Some ps \<Rightarrow> ps) = sch
           \<longrightarrow> fst (sendToNotion w d st) = Inl (Error ''No title property found in database'')
               \<and> sent (snd (sendToNotion w d st))
                    = sent w @ [GetDatabase (databaseId st) (notionToken st)]
               \<and> filter is_CreatePage (sent (snd (sendToNotion w d st)))
                    = filter is_CreatePage (sent w))"
proof -
  have b: "buildNotionProperties d sch = Inl (Error ''No title property found in database'')"
    using assms by (rule buildNotionProperties_no_title)
  have "fst (sendToNotion w d st) = Inl (Error ''No title property found in database'')
               \<and> sent (snd (sendToNotion w d st))
                    = sent w @ [GetDatabase (databaseId st) (notionToken st)]
               \<and> filter is_CreatePage (sent (snd (sendToNotion w d st)))
                    = filter is_CreatePage (sent w)"
    if "remote w (GetDatabase (databaseId st) (notionToken st)) = Response c (Some db)"
       "ok c" "(case properties db of None \<Rightarrow> [] | Some ps \<Rightarrow> ps) = sch"
    for w st c db
    using that b by (simp add: sendToNotion_def fetch_def is_CreatePage_def)
  with b show ?thesis by blast
qed

theorem C8_no_title_property_no_write_witness:
  "\<forall>d. buildNotionProperties d [] = Inl (Error ''No title property found in database'')
      \<and> fst (sendToNotion (world_42 1000 (\<lambda>op. False) empty_schema_api) d settings_0)
           = Inl (Error ''No title property found in database'')
      \<and> sent (snd (sendToNotion (world_42 1000 (\<lambda>op. False) empty_schema_api) d settings_0))
           = [GetDatabase ''db'' ''secret_t'']"
proof
  fix d
  let ?w = "world_42 1000 (\<lambda>op. False) empty_schema_api"
  have h: "\<forall>p \<in> set ([] :: schema). snd p \<noteq> ''title''" by simp
  have r: "remote ?w (GetDatabase (databaseId settings_0) (notionToken settings_0))
             = Response 200 (Some \<lparr>properties = Some [], results = None,
                 as_page = \<lparr>page_id = [], page_url = [], archived = False, in_trash = False\<rparr>,
                 message = []\<rparr>)"
    by (simp add: world_42_def empty_schema_api_def)
  have o: "ok 200" by (simp add: ok_def)
  from C8_no_title_property_no_write [OF h, of d] r o
  have "buildNotionProperties d [] = Inl (Error ''No title property found in database'')
      \<and> fst (sendToNotion ?w d settings_0) = Inl (Error ''No title property found in database'')
      \<and> sent (snd (sendToNotion ?w d settings_0))
           = sent ?w @ [GetDatabase (databaseId settings_0) (notionToken settings_0)]"
    by simp
  then show "buildNotionProperties d [] = Inl (Error ''No title property found in database'')
      \<and> fst (sendToNotion ?w d settings_0) = Inl (Error ''No title property found in database'')
      \<and> sent (snd (sendToNotion ?w d settings_0)) = [GetDatabase ''db'' ''secret_t'']"
    by (simp add: world_42_def settings_0_def)
qed

section \<open>Settings validation: results\<close>

lemma trim_secret_abc: "trim ''secret_abc'' = ''secret_abc''"
  by (simp add: trim_def strip_start.simps white_space_def)

lemma trim_hyphenated:
  "trim ''12345678-1234-1234-1234-123456789abc'' = ''12345678-1234-1234-1234-123456789abc''"
  by (simp add: trim_def strip_start.simps white_space_def)

lemma trim_short_hyphenated:
  "trim ''0123456789abcdef-0123456789abcde'' = ''0123456789abcdef-0123456789abcde''"
  by (simp add: trim_def strip_start.simps white_space_def)

text \<open>
  C9 does not hold of the code. The length test reads the identifier before its hyphens
  are stripped, the character test after. So the hyphenated identifier
  \<open>12345678-1234-1234-1234-123456789abc\<close>, 32 hexadecimal characters once stripped, is
  refused with the message that asks for 32 characters; and
  \<open>0123456789abcdef-0123456789abcde\<close>, 31 hexadecimal characters once stripped, is not.
\<close>

theorem C9_hyphenated_identifier_refused:
  "all_hex (strip_hyphens ''12345678-1234-1234-1234-123456789abc'')
   \<and> length (strip_hyphens ''12345678-1234-1234-1234-123456789abc'') = 32
   \<and> saveSettings w ''secret_abc'' ''12345678-1234-1234-1234-123456789abc''
       = ((''Database ID must be 32 characters (letters and numbers)'', ''error''), w)
   \<and> length (strip_hyphens ''0123456789abcdef-0123456789abcde'') = 31
   \<and> fst (saveSettings w ''secret_abc'' ''0123456789abcdef-0123456789abcde'')
       \<noteq> (''Database ID must be 32 characters (letters and numbers)'', ''error'')"
  by (simp add: saveSettings_def trim_secret_abc trim_hyphenated trim_short_hyphenated
        all_hex_def strip_hyphens_def is_hex_def)

theorem C9_hyphenated_identifier_refused_witness:
  "saveSettings (world_42 0 (\<lambda>op. False) offline) ''secret_abc''
       ''12345678-1234-1234-1234-123456789abc''
     = ((''Database ID must be 32 characters (letters and numbers)'', ''error''),
        world_42 0 (\<lambda>op. False) offline)"
  using C9_hyphenated_identifier_refused [of "world_42 0 (\<lambda>op. False) offline"] by blast

section \<open>Topic tags: results\<close>

lemma push_tags_distinct: "distinct tgs \<Longrightarrow> distinct (push_tags tgs els)"
  by (induction els arbitrary: tgs) (auto simp: Let_def)

lemma tags_from_selectors_distinct:
  "distinct tgs \<Longrightarrow> distinct (tags_from_selectors doc tgs sels)"
  by (induction sels arbitrary: tgs) (auto simp: Let_def push_tags_distinct)

lemma tags_from_selectors_script_only:
  "tags_from_selectors (script_only s) [] tag_selectors = []"
  by (simp add: tag_selectors_def script_only_def)

lemma includes_duplicate_script: "includes_str duplicate_script ''topicTags''"
  by (simp add: duplicate_script_def duplicate_group_def)

lemma match_duplicate_script: "match_topicTags duplicate_script = Some duplicate_group"
  by (simp add: duplicate_script_def duplicate_group_def topicTags_open_def
        line_terminator_at_def)

lemma name_matches_duplicate_group: "name_matches duplicate_group = [''Array'', ''Array'']"
  by (simp add: duplicate_group_def name_matches.simps name_open_def not_quote_def)

text \<open>
  C10 does not hold of the code on the embedded-script path. The selector path pushes a
  tag only when the list does not hold it yet, so its result has no duplicates on any
  page; the script path pushes every \<open>name\<close> it matches. On a page where no tag
  selector matches and a script holds a \<open>topicTags\<close> array naming \<open>Array\<close> twice,
  \<open>extractTags\<close> returns \<open>Array\<close> twice.
\<close>

theorem C10_script_path_keeps_duplicates:
  "distinct (tags_from_selectors doc [] tag_selectors)
   \<and> extractTags (script_only duplicate_script) = [''Array'', ''Array'']
   \<and> \<not> distinct (extractTags (script_only duplicate_script))"
proof -
  have e: "extractTags (script_only duplicate_script) = [''Array'', ''Array'']"
    by (simp add: extractTags_def tags_from_selectors_script_only)
       (simp add: script_only_def includes_duplicate_script match_duplicate_script
          name_matches_duplicate_group)
  have "distinct (tags_from_selectors doc [] tag_selectors)"
    by (rule tags_from_selectors_distinct) simp
  with e show ?thesis by simp
qed

section \<open>Duplicate detection: results\<close>

lemma findPageInNotion_lookup_error:
  "lookup_error w n st \<Longrightarrow> fst (findPageInNotion w n st) = None"
  by (auto simp: lookup_error_def findPageInNotion_def fetch_def fetch_fails_def Let_def
           split: response.splits option.splits prod.splits if_splits)

lemma getCachedPage_remote:
  "getCachedPage w n = Inr (r, w1) \<Longrightarrow> remote w1 = remote w"
  by (auto simp: getCachedPage_def Let_def split: if_splits option.splits)

lemma lookup_error_remote:
  "remote w1 = remote w \<Longrightarrow> lookup_error w1 n st = lookup_error w n st"
  unfolding lookup_error_def by (erule ssubst) (rule refl)

lemma checkForDuplicate_try_miss_not_found:
  assumes "getCachedPage w n = Inr (None, w1)" and "fst (findPageInNotion w1 n st) = None"
  shows "checkForDuplicate_try w a n st
           = Inr (showAlreadySavedBadge False a, snd (findPageInNotion w1 n st), None)"
  using assms by (cases "findPageInNotion w1 n st") (simp add: checkForDuplicate_try_def)

lemma checkForDuplicate_try_read_fails:
  "storage_fails w (StorageGet [problem_key n]) \<Longrightarrow>
   checkForDuplicate_try w a n st = Inl (StorageError, a, w)"
  by (simp add: checkForDuplicate_try_def getCachedPage_def)

lemma checkForDuplicate_active:
  assumes "loadSettings w = Inr st" "problemData_number a = Some n" "n \<noteq> 0"
          "notionToken st \<noteq> []" "databaseId st \<noteq> []"
  shows "checkForDuplicate w a =
           (case checkForDuplicate_try w a n st of
              Inl (e, a1, w1) \<Rightarrow> Inr (showAlreadySavedBadge False a1, w1, None)
            | Inr r \<Rightarrow> Inr r)"
  using assms by (simp add: checkForDuplicate_def)

lemma checkForDuplicate_returns:
  assumes "loadSettings w = Inr st"
  shows "\<exists>r. checkForDuplicate w a = Inr r"
  using assms
  by (auto simp: checkForDuplicate_def split: option.splits sum.splits prod.splits)

text \<open>
  C2, as the claim states it, fails: \<open>checkForDuplicate\<close> awaits \<open>loadSettings\<close> before
  its \<open>try\<close> block, so a rejected read of the settings is thrown to the caller.
\<close>

theorem C2_settings_read_failure_propagates:
  "checkForDuplicate
     (world_42 1000 (\<lambda>op. op = StorageGet [''notionToken'', ''databaseId'']) offline)
     unchecked_42 = Inl StorageError"
  by (simp add: checkForDuplicate_def unchecked_42_def loadSettings_def world_42_def)

lemma getCachedPage_read_fails:
  "cache_read_fails w n \<Longrightarrow> getCachedPage w n = Inl StorageError"
  by (auto simp: cache_read_fails_def getCachedPage_def Let_def split: option.splits)

lemma getCachedPage_misses:
  "cache_misses w n \<Longrightarrow>
   \<exists>w1. getCachedPage w n = Inr (None, w1) \<and> remote w1 = remote w
        \<and> local_cache w1 (problem_key n) = None"
  by (auto simp: cache_misses_def getCachedPage_def Let_def split: option.splits)

lemma findPageInNotion_local_cache:
  "local_cache (snd (findPageInNotion w n st)) = local_cache w"
  by (simp add: findPageInNotion_def fetch_def Let_def
           split: response.splits option.splits prod.splits list.splits)

lemma checkForDuplicate_try_throws:
  "getCachedPage w n = Inl e \<Longrightarrow> checkForDuplicate_try w a n st = Inl (e, a, w)"
  by (simp add: checkForDuplicate_try_def)

text \<open>
  C2, amended: for every invocation of the duplicate check in which the settings are
  read, the check returns to its caller without throwing. With a problem number and
  stored credentials, a cache read that fails, and after a cache miss a schema fetch
  that fails, a schema with no number-typed property under the aliases or a query that
  fails, each ends in the NotFound outcome: the already-saved badge is hidden, the
  rest of the popup (page id, url, links) is as it was, no cache entry is written for
  the problem and no background validation is started.
\<close>

theorem C2_checkForDuplicate_contains_errors:
  assumes "loadSettings w = Inr st"
  shows "\<exists>a' w' bg. checkForDuplicate w a = Inr (a', w', bg)
     \<and> (problemData_number a = Some n \<and> n \<noteq> 0 \<and> notionToken st \<noteq> [] \<and> databaseId st \<noteq> []
          \<longrightarrow>
          (cache_read_fails w n
             \<longrightarrow> a' = a\<lparr>alreadySavedBadge := False\<rparr> \<and> w' = w \<and> bg = None)
        \<and> (cache_misses w n \<and> lookup_error w n st
             \<longrightarrow> a' = a\<lparr>alreadySavedBadge := False\<rparr>
                 \<and> local_cache w' (problem_key n) = None \<and> bg = None))"
proof -
  obtain a' w' bg where r: "checkForDuplicate w a = Inr (a', w', bg)"
    using checkForDuplicate_returns [OF assms] by (metis prod_cases3)
  have "(cache_read_fails w n
             \<longrightarrow> a' = a\<lparr>alreadySavedBadge := False\<rparr> \<and> w' = w \<and> bg = None)
        \<and> (cache_misses w n \<and> lookup_error w n st
             \<longrightarrow> a' = a\<lparr>alreadySavedBadge := False\<rparr>
                 \<and> local_cache w' (problem_key n) = None \<and> bg = None)"
    if act: "problemData_number a = Some n" "n \<noteq> 0" "notionToken st \<noteq> []" "databaseId st \<noteq> []"
  proof -
    note eq = checkForDuplicate_active [OF assms act]
    have read: "a' = a\<lparr>alreadySavedBadge := False\<rparr> \<and> w' = w \<and> bg = None"
      if "cache_read_fails w n"
      using checkForDuplicate_try_throws [OF getCachedPage_read_fails [OF that], of a st] r eq
      by (simp add: showAlreadySavedBadge_def)
    have miss: "a' = a\<lparr>alreadySavedBadge := False\<rparr>
                 \<and> local_cache w' (problem_key n) = None \<and> bg = None"
      if m: "cache_misses w n" and le: "lookup_error w n st"
    proof -
      from getCachedPage_misses [OF m] obtain w1 where
        g: "getCachedPage w n = Inr (None, w1)" and rm: "remote w1 = remote w"
        and lc: "local_cache w1 (problem_key n) = None"
        by blast
      have "lookup_error w1 n st"
        using le lookup_error_remote [OF rm] by simp
      then have "fst (findPageInNotion w1 n st) = None"
        by (rule findPageInNotion_lookup_error)
      from checkForDuplicate_try_miss_not_found [OF g this, of a] r eq
      have "a' = showAlreadySavedBadge False a" "w' = snd (findPageInNotion w1 n st)" "bg = None"
        by simp_all
      then show ?thesis
        using lc by (simp add: showAlreadySavedBadge_def findPageInNotion_local_cache)
    qed
    show ?thesis using read miss by blast
  qed
  with r show ?thesis by blast
qed

theorem C2_checkForDuplicate_contains_errors_witness:
  "loadSettings (world_42 4000000 (\<lambda>op. False) offline) = Inr settings_0
   \<and> cache_misses (world_42 4000000 (\<lambda>op. False) offline) 42
   \<and> lookup_error (world_42 4000000 (\<lambda>op. False) offline) 42 settings_0
   \<and> (\<exists>a' w' bg.
         checkForDuplicate (world_42 4000000 (\<lambda>op. False) offline) unchecked_42 = Inr (a', w', bg)
         \<and> a' = unchecked_42\<lparr>alreadySavedBadge := False\<rparr>
         \<and> local_cache w' (problem_key 42) = None \<and> bg = None)"
proof -
  let ?w = "world_42 4000000 (\<lambda>op. False) offline"
  have h1: "loadSettings ?w = Inr settings_0"
    by (simp add: loadSettings_def world_42_def)
  have h2: "cache_misses ?w 42"
    by (simp add: cache_misses_def key42 world_42_def entry_abc_def CACHE_TTL_def)
  have h3: "lookup_error ?w 42 settings_0"
    by (simp add: lookup_error_def world_42_def offline_def)
  have act: "problemData_number unchecked_42 = Some 42 \<and> (42::nat) \<noteq> 0
               \<and> notionToken settings_0 \<noteq> [] \<and> databaseId settings_0 \<noteq> []"
    by (simp add: unchecked_42_def settings_0_def)
  from C2_checkForDuplicate_contains_errors [OF h1, of unchecked_42 42] act h2 h3
  have "\<exists>a' w' bg. checkForDuplicate ?w unchecked_42 = Inr (a', w', bg)
         \<and> a' = unchecked_42\<lparr>alreadySavedBadge := False\<rparr>
         \<and> local_cache w' (problem_key 42) = None \<and> bg = None"
    by blast
  with h1 h2 h3 show ?thesis by blast
qed

section \<open>Code lines: results\<close>

lemma compare_lines_neg: "compare_lines a b < 0 \<longleftrightarrow> line_before a b \<and> \<not> line_before b a"
  by (auto simp: compare_lines_def line_before_def)

lemma line_before_total: "line_before a b \<or> line_before b a"
  by (auto simp: line_before_def)

lemma line_before_trans: "line_before a b \<Longrightarrow> line_before b c \<Longrightarrow> line_before a c"
  by (auto simp: line_before_def)

lemma set_insert_by: "set (insert_by cmp x ys) = insert x (set ys)"
  by (induction ys) auto

lemma mset_insert_by: "mset (insert_by cmp x ys) = add_mset x (mset ys)"
  by (induction ys) auto

lemma sorted_insert_by:
  "sorted_wrt line_before ys \<Longrightarrow> sorted_wrt line_before (insert_by compare_lines x ys)"
proof (induction ys)
  case Nil
  then show ?case by simp
next
  case (Cons y ys)
  show ?case
  proof (cases "compare_lines x y < 0")
    case True
    then have xy: "line_before x y" by (simp add: compare_lines_neg)
    have "\<forall>z \<in> set ys. line_before x z"
      using Cons.prems xy line_before_trans by auto
    with xy Cons.prems True show ?thesis by simp
  next
    case False
    then have yx: "line_before y x"
      using line_before_total [of x y] by (auto simp: compare_lines_neg)
    from Cons have "sorted_wrt line_before (insert_by compare_lines x ys)" by simp
    with yx Cons.prems False show ?thesis by (simp add: set_insert_by)
  qed
qed

lemma sorted_foldl_insert_by:
  "sorted_wrt line_before acc \<Longrightarrow>
   sorted_wrt line_before (foldl (\<lambda>acc x. insert_by compare_lines x acc) acc xs)"
  by (induction xs arbitrary: acc) (simp_all add: sorted_insert_by)

lemma mset_foldl_insert_by:
  "mset (foldl (\<lambda>acc x. insert_by cmp x acc) acc xs) = mset acc + mset xs"
  by (induction xs arbitrary: acc) (simp_all add: mset_insert_by)

lemma sort_by_sorted: "sorted_wrt line_before (sort_by compare_lines xs)"
  by (simp add: sort_by_def sorted_foldl_insert_by)

lemma sort_by_mset: "mset (sort_by cmp xs) = mset xs"
  by (simp add: sort_by_def mset_foldl_insert_by)

lemma line_text_index_lines:
  "map line_text (index_lines i els) = map (\<lambda>l. replace_nbsp (innerText l)) els"
  by (induction els arbitrary: i) simp_all

lemma perms3:
  assumes "mset els = mset [x, y, z]"
  shows "els \<in> {[x, y, z], [x, z, y], [y, x, z], [y, z, x], [z, x, y], [z, y, x]}"
proof -
  from assms have "length els = 3"
    using mset_eq_length [of els "[x, y, z]"] by simp
  then obtain p q r where e: "els = [p, q, r]"
    by (auto simp: numeral_3_eq_3 length_Suc_conv)
  from assms show ?thesis unfolding e
    by (auto simp: add_eq_conv_ex)
qed

lemmas extractCodeFromDom_eval =
  extractCodeFromDom_def sort_by_def compare_lines_def line_a_def line_b_def line_c_def
  trim_def strip_start.simps white_space_def

lemma code_bac: "extractCodeFromDom (Some [line_b, line_a, line_c])
    = Some [CHR ''a'', CHR 0x0A, CHR ''b'', CHR 0x0A, CHR ''c'']"
  by (simp add: extractCodeFromDom_eval)
lemma code_bca: "extractCodeFromDom (Some [line_b, line_c, line_a])
    = Some [CHR ''a'', CHR 0x0A, CHR ''b'', CHR 0x0A, CHR ''c'']"
  by (simp add: extractCodeFromDom_eval)
lemma code_abc: "extractCodeFromDom (Some [line_a, line_b, line_c])
    = Some [CHR ''a'', CHR 0x0A, CHR ''b'', CHR 0x0A, CHR ''c'']"
  by (simp add: extractCodeFromDom_eval)
lemma code_acb: "extractCodeFromDom (Some [line_a, line_c, line_b])
    = Some [CHR ''a'', CHR 0x0A, CHR ''b'', CHR 0x0A, CHR ''c'']"
  by (simp add: extractCodeFromDom_eval)
lemma code_cab: "extractCodeFromDom (Some [line_c, line_a, line_b])
    = Some [CHR ''a'', CHR 0x0A, CHR ''b'', CHR 0x0A, CHR ''c'']"
  by (simp add: extractCodeFromDom_eval)
lemma code_cba: "extractCodeFromDom (Some [line_c, line_b, line_a])
    = Some [CHR ''a'', CHR 0x0A, CHR ''b'', CHR 0x0A, CHR ''c'']"
  by (simp add: extractCodeFromDom_eval)

lemma index_lines_enumerate: "index_lines n els = map mk_line (enumerate n els)"
  by (induction els arbitrary: n) (simp_all add: mk_line_def)

lemma line_before_key: "line_before a b \<longleftrightarrow> line_key a \<le> line_key b"
  by (auto simp: line_before_def line_key_def less_eq_prod_def)

lemma insort_key_map_comm:
  "insort_key f (g x) (map g ys) = map g (insort_key (\<lambda>a. f (g a)) x ys)"
  by (induction ys) simp_all

lemma sort_key_map_comm: "sort_key f (map g xs) = map g (sort_key (\<lambda>a. f (g a)) xs)"
  by (induction xs) (simp_all add: insort_key_map_comm)

lemma distinct_singleton_set:
  assumes "distinct zs" "set zs = {k}"
  shows "zs = [k]"
proof (cases zs)
  case Nil
  with assms show ?thesis by simp
next
  case (Cons a list)
  with assms have ak: "a = k" and sub: "set list \<subseteq> {k}" and nk: "k \<notin> set list"
    by auto
  have "list = []"
  proof (cases list)
    case Nil
    then show ?thesis .
  next
    case (Cons b l)
    then have "b \<in> set list" by simp
    with sub nk show ?thesis by auto
  qed
  with Cons ak show ?thesis by simp
qed

lemma filter_key_singleton:
  assumes "distinct zs" "inj_on f (set zs)" "k \<in> set zs"
  shows "filter (\<lambda>x. f k = f x) zs = [k]"
proof (rule distinct_singleton_set)
  show "distinct (filter (\<lambda>x. f k = f x) zs)" using assms(1) by simp
  show "set (filter (\<lambda>x. f k = f x) zs) = {k}"
    using assms(2,3) by (auto dest: inj_onD)
qed

lemma sort_by_is_sort_key:
  assumes "distinct (map index ls)"
  shows "sort_by compare_lines ls = sort_key line_key ls"
proof (rule sym, rule properties_for_sort_key)
  let ?ys = "sort_by compare_lines ls"
  show m: "mset ?ys = mset ls" by (rule sort_by_mset)
  from assms have d: "distinct ls" and i: "inj_on index (set ls)"
    by (auto simp: distinct_map)
  have inj: "inj_on line_key (set ls)"
    using i by (auto simp: inj_on_def line_key_def)
  have s: "set ?ys = set ls" using m by (rule mset_eq_setD)
  have dy: "distinct ?ys" using d mset_eq_imp_distinct_iff [OF m] by blast
  show "filter (\<lambda>x. line_key k = line_key x) ?ys = filter (\<lambda>x. line_key k = line_key x) ls"
    if "k \<in> set ?ys" for k
  proof -
    have "filter (\<lambda>x. line_key k = line_key x) ?ys = [k]"
      using dy inj that s by (intro filter_key_singleton) simp_all
    moreover have "filter (\<lambda>x. line_key k = line_key x) ls = [k]"
      using d inj that s by (intro filter_key_singleton) simp_all
    ultimately show ?thesis by simp
  qed
  have "line_before = (\<lambda>x y. line_key x \<le> line_key y)"
    by (auto simp: fun_eq_iff line_before_key)
  with sort_by_sorted [of ls] show "sorted (map line_key ?ys)"
    by (simp add: sorted_map)
qed

lemma sort_key_of_mk_line:
  "sort_key (\<lambda>a. line_key (mk_line a)) ps
     = sort_key (\<lambda>(i, l). (style_top l, style_left l, i)) ps"
proof -
  have "(\<lambda>a. line_key (mk_line a)) = (\<lambda>(i, l). (style_top l, style_left l, i))"
    by (auto simp: fun_eq_iff line_key_def mk_line_def)
  then show ?thesis by (rule arg_cong)
qed

lemma text_of_mk_line:
  "map line_text (map mk_line ps) = map (\<lambda>(i, l). replace_nbsp (innerText l)) ps"
  by (induction ps) (auto simp: mk_line_def)

lemma index_of_mk_line: "map index (map mk_line ps) = map fst ps"
  by (induction ps) (auto simp: mk_line_def)

lemma sorted_lines_spec:
  "map line_text (sort_by compare_lines (index_lines 0 els))
     = map (\<lambda>(i, l). replace_nbsp (innerText l))
         (sort_key (\<lambda>(i, l). (style_top l, style_left l, i)) (enumerate 0 els))"
proof -
  have "map index (index_lines 0 els) = map fst (enumerate 0 els)"
    by (simp only: index_lines_enumerate index_of_mk_line)
  then have "distinct (map index (index_lines 0 els))"
    by simp
  then have "sort_by compare_lines (index_lines 0 els) = sort_key line_key (index_lines 0 els)"
    by (rule sort_by_is_sort_key)
  also have "\<dots> = map mk_line (sort_key (\<lambda>a. line_key (mk_line a)) (enumerate 0 els))"
    by (simp only: index_lines_enumerate sort_key_map_comm)
  also have "\<dots> = map mk_line
      (sort_key (\<lambda>(i, l). (style_top l, style_left l, i)) (enumerate 0 els))"
    by (simp only: sort_key_of_mk_line)
  finally show ?thesis
    by (simp only: text_of_mk_line)
qed

lemma extractCodeFromDom_refines:
  "extractCodeFromDom (Some els) = reconstruct_spec els"
  by (simp add: extractCodeFromDom_def reconstruct_spec_def sorted_lines_spec Let_def)

lemma code_pq: "extractCodeFromDom (Some [line_p, line_q]) = Some [CHR ''p'', CHR 0x0A, CHR ''q'']"
  by (simp add: extractCodeFromDom_eval line_p_def line_q_def)

lemma code_qp: "extractCodeFromDom (Some [line_q, line_p]) = Some [CHR ''q'', CHR 0x0A, CHR ''p'']"
  by (simp add: extractCodeFromDom_eval line_p_def line_q_def)

lemma code_yx: "extractCodeFromDom (Some [line_y, line_x]) = Some [CHR ''x'', CHR 0x0A, CHR ''y'']"
  by (simp add: extractCodeFromDom_eval line_x_def line_y_def)

text \<open>
  C7: for every list of editor lines, \<open>extractCodeFromDom\<close> returns what the
  specification of the reconstruction gives: the lines ordered by vertical offset, then
  horizontal offset, then position in the DOM, joined with newlines and trimmed (absent
  when that is empty). For the three lines \<open>{top: 40, left: 0, text: b}\<close>,
  \<open>{top: 0, left: 0, text: a}\<close> and \<open>{top: 40, left: 10, text: c}\<close>, given in any order,
  the text is \<open>a\<close>, \<open>b\<close>, \<open>c\<close> on three lines. Two lines with the same offsets keep
  their DOM order, whichever comes first; a line above and to the right of another
  comes before it.
\<close>

theorem C7_extractCodeFromDom_orders_lines:
  "extractCodeFromDom (Some els) = reconstruct_spec els
   \<and> extractCodeFromDom None = None
   \<and> (mset els = mset [line_b, line_a, line_c] \<longrightarrow>
        extractCodeFromDom (Some els) = Some [CHR ''a'', CHR 0x0A, CHR ''b'', CHR 0x0A, CHR ''c''])
   \<and> extractCodeFromDom (Some [line_p, line_q]) = Some [CHR ''p'', CHR 0x0A, CHR ''q'']
   \<and> extractCodeFromDom (Some [line_q, line_p]) = Some [CHR ''q'', CHR 0x0A, CHR ''p'']
   \<and> extractCodeFromDom (Some [line_y, line_x]) = Some [CHR ''x'', CHR 0x0A, CHR ''y'']"
proof (intro conjI impI)
  show "extractCodeFromDom (Some els) = reconstruct_spec els"
    by (rule extractCodeFromDom_refines)
  show "extractCodeFromDom None = None"
    by (simp add: extractCodeFromDom_def)
next
  assume "mset els = mset [line_b, line_a, line_c]"
  then have "els \<in> {[line_b, line_a, line_c], [line_b, line_c, line_a], [line_a, line_b, line_c],
                     [line_a, line_c, line_b], [line_c, line_b, line_a], [line_c, line_a, line_b]}"
    by (rule perms3)
  then show "extractCodeFromDom (Some els)
               = Some [CHR ''a'', CHR 0x0A, CHR ''b'', CHR 0x0A, CHR ''c'']"
    using code_bac code_bca code_abc code_acb code_cab code_cba by auto
qed (rule code_pq code_qp code_yx)+

theorem C7_extractCodeFromDom_orders_lines_witness:
  "mset [line_c, line_b, line_a] = mset [line_b, line_a, line_c]
   \<and> extractCodeFromDom (Some [line_c, line_b, line_a])
       = Some [CHR ''a'', CHR 0x0A, CHR ''b'', CHR 0x0A, CHR ''c'']
   \<and> reconstruct_spec [line_c, line_b, line_a]
       = Some [CHR ''a'', CHR 0x0A, CHR ''b'', CHR 0x0A, CHR ''c'']"
proof -
  have h: "mset [line_c, line_b, line_a] = mset [line_b, line_a, line_c]"
    by (simp add: add_mset_commute)
  from C7_extractCodeFromDom_orders_lines [of "[line_c, line_b, line_a]"] h
  have "extractCodeFromDom (Some [line_c, line_b, line_a])
          = Some [CHR ''a'', CHR 0x0A, CHR ''b'', CHR 0x0A, CHR ''c'']"
    and "extractCodeFromDom (Some [line_c, line_b, line_a]) = reconstruct_spec [line_c, line_b, line_a]"
    by blast+
  with h show ?thesis by simp
qed

end
